theory Spec2Isabelle
  imports Complex_Main "HOL-Library.AList" "HOL-Library.Sublist"
begin

section \<open>Great-circle distance and the registries of greenland\_monitor.py\<close>

text \<open>
  Python floats are idealised as real numbers: \<open>math.sin\<close>, \<open>math.cos\<close>,
  \<open>math.sqrt\<close> and \<open>math.atan2\<close> are the exact functions, and every comparison of
  two distances is the comparison of the exact values.
\<close>

definition radians :: "real \<Rightarrow> real" where
  "radians d = d * pi / 180"

definition atan2 :: "real \<Rightarrow> real \<Rightarrow> real" where
  "atan2 y x =
     (if 0 < x then arctan (y / x)
      else if x < 0 \<and> 0 \<le> y then arctan (y / x) + pi
      else if x < 0 then arctan (y / x) - pi
      else if 0 < y then pi / 2
      else if y < 0 then - (pi / 2)
      else 0)"

definition haversine_km :: "real \<Rightarrow> real \<Rightarrow> real \<Rightarrow> real \<Rightarrow> real" where
  "haversine_km lat1 lon1 lat2 lon2 =
     (let R = 6371;
          lat1_rad = radians lat1;
          lat2_rad = radians lat2;
          dlat = radians (lat2 - lat1);
          dlon = radians (lon2 - lon1);
          a = (sin (dlat / 2))\<^sup>2 + cos lat1_rad * cos lat2_rad * (sin (dlon / 2))\<^sup>2;
          c = 2 * atan2 (sqrt a) (sqrt (1 - a))
      in R * c)"

text \<open>
  An entry of \<open>GREENLAND_AIRPORTS\<close> or \<open>MINING_HELIPORTS\<close>. The keys \<open>iata\<close>,
  \<open>runway_m\<close>, \<open>type\<close> and \<open>notes\<close> are read by the map renderer only.
\<close>

record location =
  loc_name :: string
  loc_lat :: real
  loc_lon :: real

text \<open>A Python dict keeps insertion order: an association list with distinct keys.\<close>

definition GREENLAND_AIRPORTS :: "(string \<times> location) list" where
  "GREENLAND_AIRPORTS =
    [(''BGGH'', \<lparr>loc_name = ''Nuuk'', loc_lat = 64.1909, loc_lon = - 51.6781\<rparr>),
     (''BGSF'', \<lparr>loc_name = ''Kangerlussuaq'', loc_lat = 67.0122, loc_lon = - 50.7116\<rparr>),
     (''BGBW'', \<lparr>loc_name = ''Narsarsuaq'', loc_lat = 61.1605, loc_lon = - 45.4260\<rparr>),
     (''BGTL'', \<lparr>loc_name = ''Thule/Pituffik'', loc_lat = 76.5312, loc_lon = - 68.7032\<rparr>),
     (''BGJN'', \<lparr>loc_name = ''Ilulissat'', loc_lat = 69.2432, loc_lon = - 51.0571\<rparr>),
     (''BGKK'', \<lparr>loc_name = ''Kulusuk'', loc_lat = 65.5736, loc_lon = - 37.1236\<rparr>),
     (''BGAA'', \<lparr>loc_name = ''Aasiaat'', loc_lat = 68.7218, loc_lon = - 52.7847\<rparr>),
     (''BGCO'', \<lparr>loc_name = ''Nerlerit Inaat'', loc_lat = 70.7431, loc_lon = - 22.6506\<rparr>),
     (''BGMQ'', \<lparr>loc_name = ''Maniitsoq'', loc_lat = 65.4125, loc_lon = - 52.9394\<rparr>),
     (''BGPT'', \<lparr>loc_name = ''Paamiut'', loc_lat = 61.9922, loc_lon = - 49.6625\<rparr>),
     (''BGQQ'', \<lparr>loc_name = ''Qaanaaq'', loc_lat = 77.4886, loc_lon = - 69.3887\<rparr>),
     (''BGUQ'', \<lparr>loc_name = ''Qaarsut'', loc_lat = 70.7342, loc_lon = - 52.6962\<rparr>),
     (''BGSS'', \<lparr>loc_name = ''Sisimiut'', loc_lat = 66.9513, loc_lon = - 53.7293\<rparr>),
     (''BGUK'', \<lparr>loc_name = ''Upernavik'', loc_lat = 72.7902, loc_lon = - 56.1306\<rparr>)]"

definition MINING_HELIPORTS :: "(string \<times> location) list" where
  "MINING_HELIPORTS =
    [(''BGJH'', \<lparr>loc_name = ''Qaqortoq Heliport'', loc_lat = 60.7158, loc_lon = - 46.0478\<rparr>),
     (''BGNS'', \<lparr>loc_name = ''Narsaq Heliport'', loc_lat = 60.9167, loc_lon = - 46.0500\<rparr>),
     (''BGNN'', \<lparr>loc_name = ''Nanortalik Heliport'', loc_lat = 60.1419, loc_lon = - 45.2328\<rparr>),
     (''BGNL'', \<lparr>loc_name = ''Nalunaq Heliport'', loc_lat = 60.2333, loc_lon = - 44.8000\<rparr>)]"

text \<open>An entry of \<open>MINING_PROJECTS\<close> (greenland\_monitor.py).\<close>

record project =
  prj_name :: string
  prj_lat :: real
  prj_lon :: real
  prj_company :: string

definition MINING_PROJECTS :: "(string \<times> project) list" where
  "MINING_PROJECTS =
    [(''tanbreez'', \<lparr>prj_name = ''Tanbreez/Kringlerne'', prj_lat = 60.95, prj_lon = - 45.95,
        prj_company = ''Critical Metals Corp''\<rparr>),
     (''kvanefjeld'', \<lparr>prj_name = ''Kvanefjeld'', prj_lat = 60.98, prj_lon = - 45.90,
        prj_company = ''Energy Transition Minerals''\<rparr>),
     (''nalunaq'', \<lparr>prj_name = ''Nalunaq Gold Mine'', prj_lat = 60.23, prj_lon = - 44.80,
        prj_company = ''Amaroq Minerals''\<rparr>),
     (''amitsoq'', \<lparr>prj_name = ''Amitsoq Graphite'', prj_lat = 60.75, prj_lon = - 45.40,
        prj_company = ''GreenRoc Mining''\<rparr>),
     (''white_mountain'', \<lparr>prj_name = ''White Mountain'', prj_lat = 66.95, prj_lon = - 50.90,
        prj_company = ''Lumina Sustainable Materials''\<rparr>),
     (''west_greenland_hub'', \<lparr>prj_name = ''West Greenland Hub'', prj_lat = 64.20,
        prj_lon = - 51.50, prj_company = ''Amaroq Minerals''\<rparr>)]"

text \<open>
  \<open>{**a, **b}\<close>: the entries of \<open>a\<close> in order, each key of \<open>b\<close> overwriting in place
  or appended at the end.
\<close>

definition dict_merge :: "('k \<times> 'v) list \<Rightarrow> ('k \<times> 'v) list \<Rightarrow> ('k \<times> 'v) list" where
  "dict_merge a b = fold (\<lambda>(k, v). AList.update k v) b a"

definition all_locations :: "(string \<times> location) list" where
  "all_locations = dict_merge GREENLAND_AIRPORTS MINING_HELIPORTS"

text \<open>
  The loop of \<open>find_nearest_airport\<close>. The state is the pair \<open>(min_dist_km, nearest)\<close>;
  \<open>None\<close> in the first component is \<open>float('inf')\<close>, above every distance.
\<close>

fun below :: "real \<Rightarrow> real option \<Rightarrow> bool" where
  "below d None = True"
| "below d (Some m) = (d < m)"

fun nearest_scan ::
  "real \<Rightarrow> real \<Rightarrow> (string \<times> location) list \<Rightarrow>
   real option \<times> (string \<times> string \<times> real) option \<Rightarrow> (string \<times> string \<times> real) option" where
  "nearest_scan lat lon [] (min_dist_km, nearest) = nearest"
| "nearest_scan lat lon ((icao, info) # rest) (min_dist_km, nearest) =
     (let dist_km = haversine_km lat lon (loc_lat info) (loc_lon info)
      in if below dist_km min_dist_km
         then nearest_scan lat lon rest (Some dist_km, Some (icao, loc_name info, dist_km))
         else nearest_scan lat lon rest (min_dist_km, nearest))"

definition find_nearest_airport :: "real \<Rightarrow> real \<Rightarrow> (string \<times> string \<times> real) option" where
  "find_nearest_airport lat lon = nearest_scan lat lon all_locations (None, None)"

text \<open>The triple \<open>(icao, name, dist_km)\<close> that the loop stores for one entry.\<close>

definition candidate :: "real \<Rightarrow> real \<Rightarrow> string \<times> location \<Rightarrow> string \<times> string \<times> real" where
  "candidate lat lon e =
     (fst e, loc_name (snd e), haversine_km lat lon (loc_lat (snd e)) (loc_lon (snd e)))"

definition dist_of :: "real \<Rightarrow> real \<Rightarrow> string \<times> location \<Rightarrow> real" where
  "dist_of lat lon e = haversine_km lat lon (loc_lat (snd e)) (loc_lon (snd e))"

text \<open>The loop of \<open>find_nearest_mine\<close>: it returns at the first project within the threshold.\<close>

fun mine_scan ::
  "real \<Rightarrow> real \<Rightarrow> real \<Rightarrow> (string \<times> project) list \<Rightarrow>
   (string \<times> string \<times> string \<times> real) option" where
  "mine_scan lat lon threshold_km [] = None"
| "mine_scan lat lon threshold_km ((project_id, info) # rest) =
     (let dist_km = haversine_km lat lon (prj_lat info) (prj_lon info)
      in if dist_km \<le> threshold_km
         then Some (project_id, prj_name info, prj_company info, dist_km)
         else mine_scan lat lon threshold_km rest)"

definition find_nearest_mine ::
  "real \<Rightarrow> real \<Rightarrow> real \<Rightarrow> (string \<times> string \<times> string \<times> real) option" where
  "find_nearest_mine lat lon threshold_km = mine_scan lat lon threshold_km MINING_PROJECTS"

section \<open>Strings\<close>

text \<open>
  Callsigns and transponder addresses are ASCII. \<open>str.strip\<close> removes the ASCII white space
  at both ends, \<open>str.upper\<close> and \<open>str.lower\<close> change the letters a to z and A to Z.
\<close>

definition is_space :: "char \<Rightarrow> bool" where
  "is_space c = ((of_char c :: nat) \<in> {9, 10, 11, 12, 13, 28, 29, 30, 31, 32})"

definition str_strip :: "string \<Rightarrow> string" where
  "str_strip s = rev (dropWhile is_space (rev (dropWhile is_space s)))"

definition upper_char :: "char \<Rightarrow> char" where
  "upper_char c =
     (case map_of (zip ''abcdefghijklmnopqrstuvwxyz'' ''ABCDEFGHIJKLMNOPQRSTUVWXYZ'') c of
        Some u \<Rightarrow> u
      | None \<Rightarrow> c)"

definition lower_char :: "char \<Rightarrow> char" where
  "lower_char c =
     (case map_of (zip ''ABCDEFGHIJKLMNOPQRSTUVWXYZ'' ''abcdefghijklmnopqrstuvwxyz'') c of
        Some l \<Rightarrow> l
      | None \<Rightarrow> c)"

definition str_upper :: "string \<Rightarrow> string" where
  "str_upper s = map upper_char s"

definition str_lower :: "string \<Rightarrow> string" where
  "str_lower s = map lower_char s"

text \<open>\<open>s.startswith(p)\<close>, and \<open>s.startswith((p1, ..., pn))\<close> with a tuple of prefixes.\<close>

definition startswith :: "string \<Rightarrow> string \<Rightarrow> bool" where
  "startswith s p = prefix p s"

definition startswith_any :: "string \<Rightarrow> string list \<Rightarrow> bool" where
  "startswith_any s ps = list_ex (startswith s) ps"

text \<open>\<open>x or ''\<close> for a string that may be \<open>None\<close>; \<open>a or b\<close> for two strings.\<close>

definition or_empty :: "string option \<Rightarrow> string" where
  "or_empty x = (case x of None \<Rightarrow> [] | Some s \<Rightarrow> s)"

definition str_or :: "string \<Rightarrow> string \<Rightarrow> string" where
  "str_or a b = (if a \<noteq> [] then a else b)"

section \<open>The choke points and the classifier of greenland\_chokepoints.py\<close>

text \<open>
  An entry of \<open>CHOKE_POINTS\<close>. The keys \<open>iata\<close>, \<open>runway_m\<close>, \<open>signal_emoji\<close>,
  \<open>notes\<close> and \<open>nearby_projects\<close> are read by the map renderer and by log lines only.
\<close>

record choke_point =
  cp_name :: string
  cp_lat :: real
  cp_lon :: real
  cp_signal :: string
  cp_monitoring_radius_km :: real

definition CHOKE_POINTS :: "(string \<times> choke_point) list" where
  "CHOKE_POINTS =
    [(''BGBW'', \<lparr>cp_name = ''Narsarsuaq'', cp_lat = 61.1605, cp_lon = - 45.4260,
        cp_signal = ''RED'', cp_monitoring_radius_km = 50\<rparr>),
     (''BGGH'', \<lparr>cp_name = ''Nuuk'', cp_lat = 64.1909, cp_lon = - 51.6781,
        cp_signal = ''YELLOW'', cp_monitoring_radius_km = 40\<rparr>),
     (''BGSF'', \<lparr>cp_name = ''Kangerlussuaq'', cp_lat = 67.0122, cp_lon = - 50.7116,
        cp_signal = ''LOW'', cp_monitoring_radius_km = 40\<rparr>)]"

definition SCHEDULED_CALLSIGN_PREFIXES :: "string list" where
  "SCHEDULED_CALLSIGN_PREFIXES = [''GRL'', ''ICE'', ''FLI'', ''SAS'', ''DAT'']"

text \<open>The first loop of \<open>classify_aircraft\<close>: the first scheduled prefix the callsign starts with.\<close>

fun scheduled_prefix :: "string \<Rightarrow> string list \<Rightarrow> string option" where
  "scheduled_prefix callsign [] = None"
| "scheduled_prefix callsign (p # ps) =
     (if startswith callsign p then Some p else scheduled_prefix callsign ps)"

definition classify_aircraft :: "string option \<Rightarrow> string option \<Rightarrow> int \<times> string \<times> string" where
  "classify_aircraft callsign0 icao0 =
     (let callsign = str_upper (str_strip (or_empty callsign0));
          icao24 = str_lower (or_empty icao0)
      in case scheduled_prefix callsign SCHEDULED_CALLSIGN_PREFIXES of
           Some p \<Rightarrow> (5, ''scheduled'', ''Scheduled: '' @ p)
         | None \<Rightarrow>
             if startswith_any callsign [''RCH'', ''RRR'', ''REACH'', ''CNV'', ''DUKE'']
             then (4, ''military_us'', ''US Military'')
             else if startswith_any callsign [''DAF'', ''DNK'', ''DANSUP'']
             then (4, ''military_dk'', ''Danish Military'')
             else if startswith_any callsign [''CFC'', ''CFF'', ''CANFORCE'']
             then (4, ''military_ca'', ''Canadian Military'')
             else if startswith icao24 ''a''
             then (1, ''private_us'', ''US N-number - PRIORITY TARGET'')
             else if startswith_any icao24 [''c0'', ''c1'', ''c2'', ''c3'']
             then (1, ''private_ca'', ''Canadian C-number - PRIORITY TARGET'')
             else if startswith icao24 ''4''
             then (2, ''private_eu'', ''European registration'')
             else if startswith icao24 ''tf''
             then (2, ''private_is'', ''Icelandic registration'')
             else (3, ''unknown'', ''Unknown registration''))"

section \<open>Time\<close>

text \<open>
  A \<open>datetime\<close> is a number of microseconds since the epoch. A time stamp written with
  \<open>'%Y-%m-%d %H:%M:%S'\<close> has second precision: it is stored as its number of whole seconds,
  \<open>strftime\<close> drops the microseconds and \<open>strptime\<close> reads the seconds back.
\<close>

type_synonym datetime = int
type_synonym timestamp = int

definition strftime :: "datetime \<Rightarrow> timestamp" where
  "strftime t = t div 1000000"

definition strptime :: "timestamp \<Rightarrow> datetime" where
  "strptime s = s * 1000000"

definition timedelta_hours :: "int \<Rightarrow> int" where
  "timedelta_hours h = h * 3600 * 1000000"

definition total_seconds :: "int \<Rightarrow> real" where
  "total_seconds d = real_of_int d / 1000000"

section \<open>Observations\<close>

datatype error = KeyError string

text \<open>
  A state vector as \<open>fetch_airport_traffic\<close> lets it through: at least eight entries, latitude
  and longitude present. The on-ground flag is \<open>None\<close> when the entry is null or missing.
\<close>

record state_vector =
  sv_icao24 :: string
  sv_callsign :: "string option"
  sv_lon :: real
  sv_lat :: real
  sv_altitude :: "real option"
  sv_on_ground :: "bool option"
  sv_velocity :: "real option"

text \<open>
  The dict that \<open>process_aircraft\<close> returns. The source stores the distance rounded to one
  decimal; the model keeps the distance itself.
\<close>

record observation =
  rec_timestamp :: timestamp
  rec_airport_icao :: string
  rec_airport_name :: string
  rec_airport_signal :: string
  rec_icao24 :: string
  rec_callsign :: string
  rec_lat :: real
  rec_lon :: real
  rec_altitude_m :: "real option"
  rec_velocity_ms :: "real option"
  rec_on_ground :: "bool option"
  rec_distance_km :: real
  rec_likely_arrival :: bool
  rec_priority :: int
  rec_classification :: string
  rec_classification_notes :: string

text \<open>Truth value of the tri-state on-ground flag: \<open>None\<close> and \<open>False\<close> are falsy.\<close>

definition truthy :: "bool option \<Rightarrow> bool" where
  "truthy b = (b = Some True)"

text \<open>The three lines of \<open>process_aircraft\<close> that compute \<open>likely_arrival\<close>.\<close>

definition likely_arrival :: "real option \<Rightarrow> real option \<Rightarrow> bool option \<Rightarrow> real \<Rightarrow> bool" where
  "likely_arrival altitude velocity on_ground distance_km =
     (let is_low = (case altitude of None \<Rightarrow> False | Some a \<Rightarrow> a < 3000);
          is_slow = (case velocity of None \<Rightarrow> False | Some v \<Rightarrow> v < 100)
      in (truthy on_ground \<or> (is_low \<and> is_slow)) \<and> distance_km < 20)"

text \<open>\<open>now\<close> is the reading of \<open>datetime.utcnow()\<close> taken for this record.\<close>

definition process_aircraft :: "datetime \<Rightarrow> state_vector \<Rightarrow> string \<Rightarrow> error + observation" where
  "process_aircraft now state airport_icao =
     (let icao24 = sv_icao24 state;
          callsign = str_strip (or_empty (sv_callsign state));
          lon = sv_lon state;
          lat = sv_lat state;
          altitude = sv_altitude state;
          on_ground = sv_on_ground state;
          velocity = sv_velocity state
      in case map_of CHOKE_POINTS airport_icao of
           None \<Rightarrow> Inl (KeyError airport_icao)
         | Some airport \<Rightarrow>
             (let distance_km = haversine_km (cp_lat airport) (cp_lon airport) lat lon;
                  (priority, classification, notes) = classify_aircraft (Some callsign) (Some icao24)
              in Inr \<lparr>rec_timestamp = strftime now,
                      rec_airport_icao = airport_icao,
                      rec_airport_name = cp_name airport,
                      rec_airport_signal = cp_signal airport,
                      rec_icao24 = icao24,
                      rec_callsign = callsign,
                      rec_lat = lat,
                      rec_lon = lon,
                      rec_altitude_m = altitude,
                      rec_velocity_ms = velocity,
                      rec_on_ground = on_ground,
                      rec_distance_km = distance_km,
                      rec_likely_arrival = likely_arrival altitude velocity on_ground distance_km,
                      rec_priority = priority,
                      rec_classification = classification,
                      rec_classification_notes = notes\<rparr>))"

section \<open>Dwell tracking\<close>

text \<open>
  A value of the dwell store. \<open>dw_dwell_hours\<close> is absent until the alert loop of
  \<open>update_dwell_tracking\<close> writes it; the source writes it rounded to one decimal, the
  model writes the quotient itself.
\<close>

record dwell =
  dw_icao24 :: string
  dw_callsign :: string
  dw_airport :: string
  dw_airport_icao :: string
  dw_first_seen :: timestamp
  dw_last_seen :: timestamp
  dw_classification :: string
  dw_dwell_hours :: "real option"

text \<open>
  An alert is a dict whose keys depend on where it was built: a key that is not set is
  \<open>None\<close>. An emoji is written as its code point. Message texts keep their words and the
  aircraft they name; the formatted numbers that the source splices into \<open>details\<close> and
  into the extended-dwell message are left out.
\<close>

record alert =
  al_timestamp :: "timestamp option"
  al_level :: "string option"
  al_emoji :: "string option"
  al_type :: "string option"
  al_priority :: "string option"
  al_message :: string
  al_details :: "string option"
  al_action :: "string option"
  al_record :: "observation option"
  al_data :: "dwell option"

definition no_keys :: alert where
  "no_keys = \<lparr>al_timestamp = None, al_level = None, al_emoji = None, al_type = None,
     al_priority = None, al_message = [], al_details = None, al_action = None,
     al_record = None, al_data = None\<rparr>"

definition dwell_key :: "observation \<Rightarrow> string" where
  "dwell_key rcd = rec_icao24 rcd @ ''_'' @ rec_airport_icao rcd"

text \<open>The records the first loop does not skip: on the ground, priority 1 or 2.\<close>

definition qualifies :: "observation \<Rightarrow> bool" where
  "qualifies rcd = (truthy (rec_on_ground rcd) \<and> rec_priority rcd \<le> 2)"

text \<open>The body of the first loop of \<open>update_dwell_tracking\<close>, for one record.\<close>

definition track :: "observation \<Rightarrow> (string \<times> dwell) list \<Rightarrow> (string \<times> dwell) list" where
  "track rcd dwell_data =
     (if \<not> truthy (rec_on_ground rcd) then dwell_data
      else if rec_priority rcd > 2 then dwell_data
      else
        (let key = dwell_key rcd
         in case map_of dwell_data key of
              None \<Rightarrow>
                AList.update key
                  \<lparr>dw_icao24 = rec_icao24 rcd,
                   dw_callsign = rec_callsign rcd,
                   dw_airport = rec_airport_name rcd,
                   dw_airport_icao = rec_airport_icao rcd,
                   dw_first_seen = rec_timestamp rcd,
                   dw_last_seen = rec_timestamp rcd,
                   dw_classification = rec_classification rcd,
                   dw_dwell_hours = None\<rparr> dwell_data
            | Some d \<Rightarrow>
                AList.update key
                  (d\<lparr>dw_last_seen := rec_timestamp rcd,
                     dw_callsign := (if rec_callsign rcd \<noteq> [] then rec_callsign rcd
                                     else dw_callsign d)\<rparr>) dwell_data))"

fun track_all :: "observation list \<Rightarrow> (string \<times> dwell) list \<Rightarrow> (string \<times> dwell) list" where
  "track_all [] dwell_data = dwell_data"
| "track_all (rcd # rest) dwell_data = track_all rest (track rcd dwell_data)"

definition dwell_hours_of :: "dwell \<Rightarrow> real" where
  "dwell_hours_of d =
     (let first = strptime (dw_first_seen d);
          last = strptime (dw_last_seen d)
      in total_seconds (last - first) / 3600)"

definition with_hours :: "dwell \<Rightarrow> dwell" where
  "with_hours d = d\<lparr>dw_dwell_hours := Some (dwell_hours_of d)\<rparr>"

definition extended_dwell_alert :: "dwell \<Rightarrow> alert" where
  "extended_dwell_alert d =
     no_keys\<lparr>al_type := Some ''EXTENDED_DWELL'',
             al_priority := Some ''HIGH'',
             al_message := str_or (dw_callsign d) (dw_icao24 d) @ '' on ground at Narsarsuaq'',
             al_data := Some d\<rparr>"

text \<open>
  The second loop: every value gets its \<open>dwell_hours\<close>, and the long stays at BGBW are
  collected. The alert holds the value as the loop leaves it.
\<close>

fun flag_long_stays :: "(string \<times> dwell) list \<Rightarrow> (string \<times> dwell) list \<times> alert list" where
  "flag_long_stays [] = ([], [])"
| "flag_long_stays ((key, d) # rest) =
     (let dwell_hours = dwell_hours_of d;
          d' = with_hours d;
          (rest', alerts) = flag_long_stays rest
      in ((key, d') # rest',
          (if dwell_hours \<ge> 4 \<and> dw_airport_icao d' = ''BGBW''
           then extended_dwell_alert d' # alerts else alerts)))"

text \<open>The invariant of the store: first-seen, then last-seen, then no later than \<open>t\<close>.\<close>

definition dwell_ok :: "timestamp \<Rightarrow> (string \<times> dwell) list \<Rightarrow> bool" where
  "dwell_ok t st = (\<forall>(k, d) \<in> set st. dw_first_seen d \<le> dw_last_seen d \<and> dw_last_seen d \<le> t)"

text \<open>
  \<open>dwell_file\<close> is the content of \<open>DWELL_FILE\<close>, \<open>None\<close> when the file does not
  exist; \<open>current_time\<close> is the reading of \<open>datetime.utcnow()\<close>. The result is the list
  of alerts and the file as it is written back.
\<close>

definition load_dwell :: "(string \<times> dwell) list option \<Rightarrow> (string \<times> dwell) list" where
  "load_dwell dwell_file = (case dwell_file of Some content \<Rightarrow> content | None \<Rightarrow> [])"

definition update_dwell_tracking ::
  "observation list \<Rightarrow> datetime \<Rightarrow> (string \<times> dwell) list option \<Rightarrow>
   alert list \<times> (string \<times> dwell) list option" where
  "update_dwell_tracking records current_time dwell_file =
     (let dwell_data = load_dwell dwell_file;
          dwell_data = track_all records dwell_data;
          (dwell_data, alerts) = flag_long_stays dwell_data;
          cutoff = current_time - timedelta_hours 48;
          dwell_data = filter (\<lambda>(k, v). strptime (dw_last_seen v) > cutoff) dwell_data
      in (alerts, Some dwell_data))"

section \<open>Priority alerts\<close>

definition generate_priority_alert :: "observation \<Rightarrow> error + alert option" where
  "generate_priority_alert rcd =
     (case map_of CHOKE_POINTS (rec_airport_icao rcd) of
        None \<Rightarrow> Inl (KeyError (rec_airport_icao rcd))
      | Some airport \<Rightarrow>
          Inr (if rec_priority rcd = 1 \<and> cp_signal airport = ''RED'' then
                 Some (no_keys\<lparr>al_timestamp := Some (rec_timestamp rcd),
                         al_level := Some ''CRITICAL'',
                         al_emoji := Some ''U+1F6A8 U+1F6A8 U+1F6A8'',
                         al_message := ''US/CA BIZJET AT NARSARSUAQ: ''
                            @ str_or (rec_callsign rcd) (rec_icao24 rcd),
                         al_details := Some (rec_classification_notes rcd),
                         al_action := Some (''Cross-reference with greenmin.gl claim activity. ''
                            @ ''Check hex at hexdb.io.''),
                         al_record := Some rcd\<rparr>)
               else if rec_priority rcd = 1 then
                 Some (no_keys\<lparr>al_timestamp := Some (rec_timestamp rcd),
                         al_level := Some ''HIGH'',
                         al_emoji := Some ''U+1F7E1'',
                         al_message := ''US/CA aircraft at '' @ cp_name airport @ '': ''
                            @ str_or (rec_callsign rcd) (rec_icao24 rcd),
                         al_details := Some (rec_classification_notes rcd),
                         al_record := Some rcd\<rparr>)
               else if rec_priority rcd = 2 \<and> cp_signal airport = ''RED'' then
                 Some (no_keys\<lparr>al_timestamp := Some (rec_timestamp rcd),
                         al_level := Some ''MEDIUM'',
                         al_emoji := Some ''U+1F4CD'',
                         al_message := ''European aircraft at Narsarsuaq: ''
                            @ str_or (rec_callsign rcd) (rec_icao24 rcd),
                         al_details := Some (rec_classification_notes rcd),
                         al_record := Some rcd\<rparr>)
               else None))"

section \<open>One invocation\<close>

text \<open>
  The two files that \<open>main\<close> reads and writes: \<open>DWELL_FILE\<close> and \<open>ALERTS_FILE\<close>,
  each \<open>None\<close> while it does not exist. The arrivals file and the map are written and never
  read back by the pipeline.
\<close>

record files =
  dwell_file :: "(string \<times> dwell) list option"
  alerts_file :: "alert list option"

text \<open>
  The network is an input: \<open>fetch icao\<close> is what \<open>fetch_airport_traffic\<close> returns for
  the airport, \<open>None\<close> on an API error, each state vector paired with the clock reading
  that \<open>process_aircraft\<close> takes for it.
\<close>

type_synonym fetch = "string \<Rightarrow> (datetime \<times> state_vector) list option"

text \<open>The inner loop of \<open>main\<close> over the state vectors of one airport.\<close>

fun process_states ::
  "string \<Rightarrow> (datetime \<times> state_vector) list \<Rightarrow> observation list \<times> alert list \<Rightarrow>
   error + observation list \<times> alert list" where
  "process_states icao [] acc = Inr acc"
| "process_states icao ((now, state) # rest) (all_records, all_alerts) =
     (case process_aircraft now state icao of
        Inl e \<Rightarrow> Inl e
      | Inr rcd \<Rightarrow>
          (case generate_priority_alert rcd of
             Inl e \<Rightarrow> Inl e
           | Inr alert \<Rightarrow>
               process_states icao rest
                 (all_records @ [rcd],
                  (case alert of Some a \<Rightarrow> all_alerts @ [a] | None \<Rightarrow> all_alerts))))"

text \<open>The outer loop of \<open>main\<close> over the airports.\<close>

fun poll ::
  "fetch \<Rightarrow> string list \<Rightarrow> observation list \<times> alert list \<Rightarrow>
   error + observation list \<times> alert list" where
  "poll fetch [] acc = Inr acc"
| "poll fetch (icao # rest) acc =
     (case map_of CHOKE_POINTS icao of
        None \<Rightarrow> Inl (KeyError icao)
      | Some airport \<Rightarrow>
          (case fetch icao of
             None \<Rightarrow> poll fetch rest acc
           | Some states \<Rightarrow>
               if states = [] then poll fetch rest acc
               else (case process_states icao states acc of
                       Inl e \<Rightarrow> Inl e
                     | Inr acc' \<Rightarrow> poll fetch rest acc')))"

text \<open>
  Everything \<open>main\<close> does before \<open># Save alerts\<close>: the alerts of the invocation, priority
  alerts first, and the dwell file as rewritten.
\<close>

definition gather ::
  "fetch \<Rightarrow> datetime \<Rightarrow> files \<Rightarrow> error + alert list \<times> (string \<times> dwell) list option" where
  "gather fetch current_time fs =
     (case poll fetch [''BGBW'', ''BGGH'', ''BGSF''] ([], []) of
        Inl e \<Rightarrow> Inl e
      | Inr (all_records, all_alerts) \<Rightarrow>
          (let (dwell_alerts, dwell_file') =
                 update_dwell_tracking all_records current_time (dwell_file fs)
           in Inr (all_alerts @ dwell_alerts, dwell_file')))"

text \<open>The alerts of one invocation; none when the run ends before it has collected them.\<close>

definition new_alerts :: "fetch \<Rightarrow> datetime \<Rightarrow> files \<Rightarrow> alert list" where
  "new_alerts fetch current_time fs =
     (case gather fetch current_time fs of Inl e \<Rightarrow> [] | Inr (all_alerts, dwell_file') \<Rightarrow> all_alerts)"

definition alert_clean :: "alert \<Rightarrow> alert" where
  "alert_clean a = a\<lparr>al_record := None\<rparr>"

text \<open>\<open>xs[-n:]\<close>\<close>

definition last_n :: "nat \<Rightarrow> 'a list \<Rightarrow> 'a list" where
  "last_n n xs = drop (length xs - n) xs"

text \<open>The block under \<open>if all_alerts:\<close>, up to the write of the alerts file.\<close>

definition save_alerts :: "alert list \<Rightarrow> alert list option \<Rightarrow> alert list option" where
  "save_alerts all_alerts file =
     (if all_alerts = [] then file
      else
        (let existing_alerts = (case file of Some content \<Rightarrow> content | None \<Rightarrow> []);
             existing_alerts = existing_alerts @ map alert_clean all_alerts;
             existing_alerts = last_n 100 existing_alerts
         in Some existing_alerts))"

text \<open>
  The print loop that ends that block reads \<open>alert['emoji']\<close> and \<open>alert['level']\<close> of
  every alert, after the file is written.
\<close>

fun print_alerts :: "alert list \<Rightarrow> error option" where
  "print_alerts [] = None"
| "print_alerts (a # rest) =
     (if al_emoji a = None then Some (KeyError ''emoji'')
      else if al_level a = None then Some (KeyError ''level'')
      else print_alerts rest)"

text \<open>\<open>main\<close>: the exception that ends the run, if any, and the files it leaves.\<close>

definition main :: "fetch \<Rightarrow> datetime \<Rightarrow> files \<Rightarrow> error option \<times> files" where
  "main fetch current_time fs =
     (case gather fetch current_time fs of
        Inl e \<Rightarrow> (Some e, fs)
      | Inr (all_alerts, dwell_file') \<Rightarrow>
          (print_alerts all_alerts,
           \<lparr>dwell_file = dwell_file', alerts_file = save_alerts all_alerts (alerts_file fs)\<rparr>))"

text \<open>Successive invocations, each with its own traffic and clock reading.\<close>

fun run :: "(fetch \<times> datetime) list \<Rightarrow> files \<Rightarrow> files" where
  "run [] fs = fs"
| "run ((fetch, current_time) # rest) fs = run rest (snd (main fetch current_time fs))"

definition stored_alerts :: "files \<Rightarrow> alert list" where
  "stored_alerts fs = (case alerts_file fs of Some content \<Rightarrow> content | None \<Rightarrow> [])"

section \<open>Nearest points of interest\<close>

lemma nearest_scan_Some:
  "\<exists>c. nearest_scan lat lon xs (Some m, Some c0) = Some c \<and>
     ((c = c0 \<and> (\<forall>j < length xs. m \<le> dist_of lat lon (xs ! j))) \<or>
      (\<exists>i < length xs. c = candidate lat lon (xs ! i) \<and> dist_of lat lon (xs ! i) < m \<and>
          (\<forall>j < length xs. dist_of lat lon (xs ! i) \<le> dist_of lat lon (xs ! j)) \<and>
          (\<forall>j < i. dist_of lat lon (xs ! i) < dist_of lat lon (xs ! j))))"
proof (induction xs arbitrary: m c0)
  case Nil
  then show ?case by simp
next
  case (Cons e xs)
  obtain icao info where e: "e = (icao, info)" by (cases e)
  let ?d = "haversine_km lat lon (loc_lat info) (loc_lon info)"
  have de: "dist_of lat lon e = ?d" by (simp add: dist_of_def e)
  show ?case
  proof (cases "?d < m")
    case True
    from Cons.IH[of ?d "(icao, loc_name info, ?d)"]
    obtain c where c: "nearest_scan lat lon xs (Some ?d, Some (icao, loc_name info, ?d)) = Some c"
      and alt: "(c = (icao, loc_name info, ?d) \<and> (\<forall>j < length xs. ?d \<le> dist_of lat lon (xs ! j))) \<or>
      (\<exists>i < length xs. c = candidate lat lon (xs ! i) \<and> dist_of lat lon (xs ! i) < ?d \<and>
          (\<forall>j < length xs. dist_of lat lon (xs ! i) \<le> dist_of lat lon (xs ! j)) \<and>
          (\<forall>j < i. dist_of lat lon (xs ! i) < dist_of lat lon (xs ! j)))" by blast
    have res: "nearest_scan lat lon (e # xs) (Some m, Some c0) = Some c"
      using True c by (simp add: e)
    from alt show ?thesis
    proof
      assume a: "c = (icao, loc_name info, ?d) \<and> (\<forall>j < length xs. ?d \<le> dist_of lat lon (xs ! j))"
      have "c = candidate lat lon ((e # xs) ! 0)" using a by (simp add: candidate_def e)
      moreover have "dist_of lat lon ((e # xs) ! 0) < m" using True de by simp
      moreover have "\<forall>j < length (e # xs). dist_of lat lon ((e # xs) ! 0) \<le> dist_of lat lon ((e # xs) ! j)"
        using a de by (auto simp: nth_Cons split: nat.splits)
      ultimately show ?thesis using res by (intro exI[of _ c]) (auto intro!: exI[of _ 0])
    next
      assume "\<exists>i < length xs. c = candidate lat lon (xs ! i) \<and> dist_of lat lon (xs ! i) < ?d \<and>
          (\<forall>j < length xs. dist_of lat lon (xs ! i) \<le> dist_of lat lon (xs ! j)) \<and>
          (\<forall>j < i. dist_of lat lon (xs ! i) < dist_of lat lon (xs ! j))"
      then obtain i where i: "i < length xs" "c = candidate lat lon (xs ! i)"
        "dist_of lat lon (xs ! i) < ?d"
        "\<forall>j < length xs. dist_of lat lon (xs ! i) \<le> dist_of lat lon (xs ! j)"
        "\<forall>j < i. dist_of lat lon (xs ! i) < dist_of lat lon (xs ! j)" by blast
      have 1: "Suc i < length (e # xs)" using i(1) by simp
      have 2: "c = candidate lat lon ((e # xs) ! Suc i)" using i(2) by simp
      have 3: "dist_of lat lon ((e # xs) ! Suc i) < m" using i(3) True by simp
      have 4: "\<forall>j < length (e # xs). dist_of lat lon ((e # xs) ! Suc i) \<le> dist_of lat lon ((e # xs) ! j)"
        using i(3,4) de by (auto simp: nth_Cons split: nat.splits)
      have 5: "\<forall>j < Suc i. dist_of lat lon ((e # xs) ! Suc i) < dist_of lat lon ((e # xs) ! j)"
        using i(3,5) de by (auto simp: nth_Cons split: nat.splits)
      show ?thesis using res 1 2 3 4 5 by blast
    qed
  next
    case False
    from Cons.IH[of m c0]
    obtain c where c: "nearest_scan lat lon xs (Some m, Some c0) = Some c"
      and alt: "(c = c0 \<and> (\<forall>j < length xs. m \<le> dist_of lat lon (xs ! j))) \<or>
      (\<exists>i < length xs. c = candidate lat lon (xs ! i) \<and> dist_of lat lon (xs ! i) < m \<and>
          (\<forall>j < length xs. dist_of lat lon (xs ! i) \<le> dist_of lat lon (xs ! j)) \<and>
          (\<forall>j < i. dist_of lat lon (xs ! i) < dist_of lat lon (xs ! j)))" by blast
    have res: "nearest_scan lat lon (e # xs) (Some m, Some c0) = Some c"
      using False c by (simp add: e)
    from alt show ?thesis
    proof
      assume a: "c = c0 \<and> (\<forall>j < length xs. m \<le> dist_of lat lon (xs ! j))"
      have "\<forall>j < length (e # xs). m \<le> dist_of lat lon ((e # xs) ! j)"
        using a False de by (auto simp: nth_Cons split: nat.splits)
      then show ?thesis using res a by blast
    next
      assume "\<exists>i < length xs. c = candidate lat lon (xs ! i) \<and> dist_of lat lon (xs ! i) < m \<and>
          (\<forall>j < length xs. dist_of lat lon (xs ! i) \<le> dist_of lat lon (xs ! j)) \<and>
          (\<forall>j < i. dist_of lat lon (xs ! i) < dist_of lat lon (xs ! j))"
      then obtain i where i: "i < length xs" "c = candidate lat lon (xs ! i)"
        "dist_of lat lon (xs ! i) < m"
        "\<forall>j < length xs. dist_of lat lon (xs ! i) \<le> dist_of lat lon (xs ! j)"
        "\<forall>j < i. dist_of lat lon (xs ! i) < dist_of lat lon (xs ! j)" by blast
      have 1: "Suc i < length (e # xs)" using i(1) by simp
      have 2: "c = candidate lat lon ((e # xs) ! Suc i)" using i(2) by simp
      have 3: "dist_of lat lon ((e # xs) ! Suc i) < m" using i(3) by simp
      have 4: "\<forall>j < length (e # xs). dist_of lat lon ((e # xs) ! Suc i) \<le> dist_of lat lon ((e # xs) ! j)"
        using i(3,4) False de by (auto simp: nth_Cons split: nat.splits)
      have 5: "\<forall>j < Suc i. dist_of lat lon ((e # xs) ! Suc i) < dist_of lat lon ((e # xs) ! j)"
        using i(3,5) False de by (auto simp: nth_Cons split: nat.splits)
      show ?thesis using res 1 2 3 4 5 by blast
    qed
  qed
qed

lemma nearest_scan_first_min:
  assumes "xs \<noteq> []"
  shows "\<exists>i < length xs. nearest_scan lat lon xs (None, None) = Some (candidate lat lon (xs ! i)) \<and>
          (\<forall>j < length xs. dist_of lat lon (xs ! i) \<le> dist_of lat lon (xs ! j)) \<and>
          (\<forall>j < i. dist_of lat lon (xs ! i) < dist_of lat lon (xs ! j))"
proof -
  obtain e ys where xs: "xs = e # ys" using assms by (cases xs) auto
  obtain icao info where e: "e = (icao, info)" by (cases e)
  let ?d = "dist_of lat lon e"
  have start: "nearest_scan lat lon xs (None, None) = nearest_scan lat lon ys (Some ?d, Some (candidate lat lon e))"
    by (simp add: xs e dist_of_def candidate_def Let_def)
  from nearest_scan_Some[of lat lon ys ?d "candidate lat lon e"]
  obtain c where c: "nearest_scan lat lon ys (Some ?d, Some (candidate lat lon e)) = Some c"
    and alt: "(c = candidate lat lon e \<and> (\<forall>j < length ys. ?d \<le> dist_of lat lon (ys ! j))) \<or>
      (\<exists>i < length ys. c = candidate lat lon (ys ! i) \<and> dist_of lat lon (ys ! i) < ?d \<and>
          (\<forall>j < length ys. dist_of lat lon (ys ! i) \<le> dist_of lat lon (ys ! j)) \<and>
          (\<forall>j < i. dist_of lat lon (ys ! i) < dist_of lat lon (ys ! j)))" by blast
  from alt show ?thesis
  proof
    assume a: "c = candidate lat lon e \<and> (\<forall>j < length ys. ?d \<le> dist_of lat lon (ys ! j))"
    have "\<forall>j < length xs. dist_of lat lon (xs ! 0) \<le> dist_of lat lon (xs ! j)"
      using a by (auto simp: xs nth_Cons split: nat.splits)
    moreover have "nearest_scan lat lon xs (None, None) = Some (candidate lat lon (xs ! 0))"
      using start c a by (simp add: xs)
    ultimately show ?thesis by (intro exI[of _ 0]) (simp add: xs)
  next
    assume "\<exists>i < length ys. c = candidate lat lon (ys ! i) \<and> dist_of lat lon (ys ! i) < ?d \<and>
          (\<forall>j < length ys. dist_of lat lon (ys ! i) \<le> dist_of lat lon (ys ! j)) \<and>
          (\<forall>j < i. dist_of lat lon (ys ! i) < dist_of lat lon (ys ! j))"
    then obtain i where i: "i < length ys" "c = candidate lat lon (ys ! i)"
        "dist_of lat lon (ys ! i) < ?d"
        "\<forall>j < length ys. dist_of lat lon (ys ! i) \<le> dist_of lat lon (ys ! j)"
        "\<forall>j < i. dist_of lat lon (ys ! i) < dist_of lat lon (ys ! j)" by blast
    have 1: "Suc i < length xs" using i(1) by (simp add: xs)
    have 2: "nearest_scan lat lon xs (None, None) = Some (candidate lat lon (xs ! Suc i))"
      using start c i(2) by (simp add: xs)
    have 4: "\<forall>j < length xs. dist_of lat lon (xs ! Suc i) \<le> dist_of lat lon (xs ! j)"
      using i(3,4) by (auto simp: xs nth_Cons split: nat.splits)
    have 5: "\<forall>j < Suc i. dist_of lat lon (xs ! Suc i) < dist_of lat lon (xs ! j)"
      using i(3,5) by (auto simp: xs nth_Cons split: nat.splits)
    show ?thesis using 1 2 4 5 by blast
  qed
qed

lemma all_locations_eq: "all_locations = GREENLAND_AIRPORTS @ MINING_HELIPORTS"
  by (simp add: all_locations_def dict_merge_def GREENLAND_AIRPORTS_def MINING_HELIPORTS_def)

lemma haversine_km_self: "haversine_km lat lon lat lon = 0"
  by (simp add: haversine_km_def radians_def atan2_def)

lemma atan2_nonneg: "0 \<le> y \<Longrightarrow> 0 \<le> atan2 y x"
proof -
  assume y: "0 \<le> y"
  have "0 \<le> arctan (y / x) + pi" using arctan_lbound[of "y / x"] pi_gt_zero by linarith
  then show ?thesis using y by (auto simp: atan2_def)
qed

lemma haversine_km_nonneg:
  assumes "0 \<le> cos (radians lat1) * cos (radians lat2)"
  shows "0 \<le> haversine_km lat1 lon1 lat2 lon2"
proof -
  let ?a = "(sin (radians (lat2 - lat1) / 2))\<^sup>2 + cos (radians lat1) * cos (radians lat2) * (sin (radians (lon2 - lon1) / 2))\<^sup>2"
  have "0 \<le> ?a" using assms by (simp add: mult_nonneg_nonneg)
  then have "0 \<le> atan2 (sqrt ?a) (sqrt (1 - ?a))" by (intro atan2_nonneg) simp
  then show ?thesis by (simp add: haversine_km_def Let_def)
qed

lemma cos_radians_nonneg: "- 90 \<le> d \<Longrightarrow> d \<le> 90 \<Longrightarrow> 0 \<le> cos (radians d)"
proof -
  assume a: "- 90 \<le> d" "d \<le> 90"
  have "pi * (- 90) \<le> pi * d" using a(1) by (intro mult_left_mono) simp_all
  then have "- (pi / 2) \<le> radians d" by (simp add: radians_def mult.commute)
  moreover have "pi * d \<le> pi * 90" using a(2) by (intro mult_left_mono) simp_all
  then have "radians d \<le> pi / 2" by (simp add: radians_def mult.commute)
  ultimately show ?thesis by (rule cos_ge_zero)
qed

lemma arctan_le_arg: "0 \<le> x \<Longrightarrow> arctan x \<le> x"
proof -
  assume x: "0 \<le> x"
  have "arctan x - x \<le> arctan 0 - 0"
  proof (rule DERIV_nonpos_imp_nonincreasing[where f = "\<lambda>u. arctan u - u", OF x])
    fix u :: real
    have "((\<lambda>u. arctan u - u) has_real_derivative (inverse (1 + u\<^sup>2) - 1)) (at u)"
      by (intro derivative_intros DERIV_arctan)
    moreover have "inverse (1 + u\<^sup>2) - 1 \<le> 0"
      by (simp add: inverse_le_1_iff add_nonneg_pos) 
    ultimately show "\<exists>y. ((\<lambda>u. arctan u - u) has_real_derivative y) (at u) \<and> y \<le> 0" by blast
  qed
  then show ?thesis by simp
qed

lemma sin_sq_le: "(sin (x::real))\<^sup>2 \<le> x\<^sup>2"
  using abs_sin_x_le_abs_x[of x] by (simp add: abs_le_square_iff)

lemma kvanefjeld_to_tanbreez:
  "0 < haversine_km 60.98 (- 45.90) 60.95 (- 45.95) \<and>
   haversine_km 60.98 (- 45.90) 60.95 (- 45.95) \<le> 50"
proof -
  define u where "u = radians (60.95 - 60.98) / 2"
  define v where "v = radians (- 45.95 - (- 45.90)) / 2"
  define k where "k = cos (radians 60.98) * cos (radians 60.95)"
  define a where "a = (sin u)\<^sup>2 + k * (sin v)\<^sup>2"
  have hav: "haversine_km 60.98 (- 45.90) 60.95 (- 45.95) = 6371 * (2 * atan2 (sqrt a) (sqrt (1 - a)))"
    by (simp add: haversine_km_def Let_def a_def k_def u_def v_def)
  have u_eq: "u = - (pi / 12000)" by (simp add: u_def radians_def)
  have v_eq: "v = - (pi / 7200)" by (simp add: v_def radians_def)
  have k0: "0 \<le> k" unfolding k_def by (intro mult_nonneg_nonneg cos_radians_nonneg) simp_all
  have k1: "k \<le> 1" unfolding k_def by (intro mult_le_one cos_le_one cos_radians_nonneg) simp_all
  have "0 < pi / 12000" "pi / 12000 < pi" using pi_gt_zero by simp_all
  then have "0 < sin (pi / 12000)" by (rule sin_gt_zero)
  then have su: "0 < (sin u)\<^sup>2" by (simp add: u_eq)
  have a_pos: "0 < a" unfolding a_def using su k0 by (intro add_pos_nonneg mult_nonneg_nonneg) simp_all
  have "u\<^sup>2 \<le> (1 / 3000)\<^sup>2"
    using pi_less_4 pi_gt_zero by (simp add: u_eq abs_le_square_iff[symmetric])
  then have ub: "(sin u)\<^sup>2 \<le> (1 / 3000)\<^sup>2" using sin_sq_le[of u] by linarith
  have "v\<^sup>2 \<le> (1 / 1800)\<^sup>2"
    using pi_less_4 pi_gt_zero by (simp add: v_eq abs_le_square_iff[symmetric])
  then have "(sin v)\<^sup>2 \<le> (1 / 1800)\<^sup>2" using sin_sq_le[of v] by linarith
  moreover have "k * (sin v)\<^sup>2 \<le> 1 * (sin v)\<^sup>2" using k1 by (intro mult_right_mono) simp_all
  ultimately have vb: "k * (sin v)\<^sup>2 \<le> (1 / 1800)\<^sup>2" by linarith
  have a_le: "a \<le> 1 / 2000000" using ub vb by (simp add: a_def power2_eq_square)
  have pos1: "0 < sqrt (1 - a)" using a_le by simp
  have at: "atan2 (sqrt a) (sqrt (1 - a)) = arctan (sqrt a / sqrt (1 - a))"
    using pos1 by (simp add: atan2_def)
  have q_pos: "0 < sqrt a / sqrt (1 - a)" using a_pos pos1 by simp
  have "a / (1 - a) \<le> (1 / 1000)\<^sup>2"
    using a_le a_pos by (simp add: field_simps power2_eq_square)
  then have "sqrt (a / (1 - a)) \<le> 1 / 1000" by (intro real_le_lsqrt) simp_all
  then have q_le: "sqrt a / sqrt (1 - a) \<le> 1 / 1000" by (simp add: real_sqrt_divide)
  have "arctan (sqrt a / sqrt (1 - a)) \<le> sqrt a / sqrt (1 - a)"
    using q_pos by (intro arctan_le_arg) simp
  then have up: "arctan (sqrt a / sqrt (1 - a)) \<le> 1 / 1000" using q_le by linarith
  have lo: "0 < arctan (sqrt a / sqrt (1 - a))" using q_pos by simp
  show ?thesis unfolding hav at using up lo by simp
qed

lemma atan2_pos: "0 < y \<Longrightarrow> 0 < atan2 y x"
proof -
  assume y: "0 < y"
  have "0 < arctan (y / x) + pi" using arctan_lbound[of "y / x"] pi_gt_zero by linarith
  moreover have "0 < x \<Longrightarrow> 0 < arctan (y / x)" using y by simp
  ultimately show ?thesis using y by (auto simp: atan2_def)
qed

lemma sin_half_radians_nonzero:
  assumes "d \<noteq> 0" "- 180 \<le> d" "d \<le> 180"
  shows "sin (radians d / 2) \<noteq> 0"
proof -
  have eq: "radians d / 2 = d * (pi / 360)" by (simp add: radians_def)
  have up: "\<bar>d\<bar> * (pi / 360) \<le> 180 * (pi / 360)"
    using assms(2,3) by (intro mult_right_mono) auto
  have lo: "0 < \<bar>d\<bar> * (pi / 360)" using assms(1) by simp
  have lt: "\<bar>d\<bar> * (pi / 360) < pi" using up pi_gt_zero by simp
  have pos: "0 < sin (\<bar>d\<bar> * (pi / 360))" using lo lt by (rule sin_gt_zero)
  show ?thesis
  proof (cases "0 \<le> d")
    case True
    then show ?thesis using pos by (simp add: eq)
  next
    case False
    then have "\<bar>d\<bar> * (pi / 360) = - (d * (pi / 360))" by simp
    then have "0 < - sin (d * (pi / 360))" using pos by simp
    then show ?thesis by (simp add: eq)
  qed
qed

lemma haversine_km_pos:
  assumes "lat1 \<noteq> lat2" "- 90 \<le> lat1" "lat1 \<le> 90" "- 90 \<le> lat2" "lat2 \<le> 90"
  shows "0 < haversine_km lat1 lon1 lat2 lon2"
proof -
  let ?s = "sin (radians (lat2 - lat1) / 2)"
  let ?k = "cos (radians lat1) * cos (radians lat2)"
  let ?a = "?s\<^sup>2 + ?k * (sin (radians (lon2 - lon1) / 2))\<^sup>2"
  have "?s \<noteq> 0" using assms by (intro sin_half_radians_nonzero) auto
  then have s: "0 < ?s\<^sup>2" by simp
  have k: "0 \<le> ?k" using assms by (intro mult_nonneg_nonneg cos_radians_nonneg)
  have "0 \<le> ?k * (sin (radians (lon2 - lon1) / 2))\<^sup>2"
    using k by (rule mult_nonneg_nonneg) simp
  with s have "0 < ?a" by (rule add_pos_nonneg)
  then have "0 < sqrt ?a" by simp
  then have "0 < atan2 (sqrt ?a) (sqrt (1 - ?a))" by (rule atan2_pos)
  then show ?thesis by (simp add: haversine_km_def Let_def)
qed

lemma registry_length: "length (GREENLAND_AIRPORTS @ MINING_HELIPORTS) = 18"
  by (simp add: GREENLAND_AIRPORTS_def MINING_HELIPORTS_def)

lemma registry_last:
  "(GREENLAND_AIRPORTS @ MINING_HELIPORTS) ! 17 =
     (''BGNL'', \<lparr>loc_name = ''Nalunaq Heliport'', loc_lat = 60.2333, loc_lon = - 44.8000\<rparr>)"
  by (simp add: GREENLAND_AIRPORTS_def MINING_HELIPORTS_def)

lemma registry_before_last:
  "\<forall>e \<in> set (butlast (GREENLAND_AIRPORTS @ MINING_HELIPORTS)).
     loc_lat (snd e) \<noteq> 60.2333 \<and> - 90 \<le> loc_lat (snd e) \<and> loc_lat (snd e) \<le> 90"
  by (simp add: GREENLAND_AIRPORTS_def MINING_HELIPORTS_def)

text \<open>
  Claim C7. \<open>find_nearest_airport\<close> scans the airports and then the heliports, all
  eighteen of them in registration order. For every query coordinate it returns an entry
  of that list whose distance to the query is minimal over the whole list, and every entry
  registered before it is strictly farther: among entries at equal minimal distance the
  first registered is returned, because the running minimum is replaced on strict
  less-than only. The loop has that property on every non-empty registry.
\<close>

theorem find_nearest_airport_first_minimum:
  "all_locations = GREENLAND_AIRPORTS @ MINING_HELIPORTS \<and>
   (\<exists>i < length (GREENLAND_AIRPORTS @ MINING_HELIPORTS).
      find_nearest_airport lat lon =
        Some (candidate lat lon ((GREENLAND_AIRPORTS @ MINING_HELIPORTS) ! i)) \<and>
      (\<forall>j < length (GREENLAND_AIRPORTS @ MINING_HELIPORTS).
         dist_of lat lon ((GREENLAND_AIRPORTS @ MINING_HELIPORTS) ! i)
           \<le> dist_of lat lon ((GREENLAND_AIRPORTS @ MINING_HELIPORTS) ! j)) \<and>
      (\<forall>j < i. dist_of lat lon ((GREENLAND_AIRPORTS @ MINING_HELIPORTS) ! i)
           < dist_of lat lon ((GREENLAND_AIRPORTS @ MINING_HELIPORTS) ! j))) \<and>
   (registry \<noteq> [] \<longrightarrow>
      (\<exists>i < length registry.
         nearest_scan lat lon registry (None, None) = Some (candidate lat lon (registry ! i)) \<and>
         (\<forall>j < length registry. dist_of lat lon (registry ! i) \<le> dist_of lat lon (registry ! j)) \<and>
         (\<forall>j < i. dist_of lat lon (registry ! i) < dist_of lat lon (registry ! j))))"
proof (intro conjI impI)
  show "all_locations = GREENLAND_AIRPORTS @ MINING_HELIPORTS" by (rule all_locations_eq)
next
  have "GREENLAND_AIRPORTS @ MINING_HELIPORTS \<noteq> []" by (simp add: GREENLAND_AIRPORTS_def)
  then show "\<exists>i < length (GREENLAND_AIRPORTS @ MINING_HELIPORTS).
      find_nearest_airport lat lon =
        Some (candidate lat lon ((GREENLAND_AIRPORTS @ MINING_HELIPORTS) ! i)) \<and>
      (\<forall>j < length (GREENLAND_AIRPORTS @ MINING_HELIPORTS).
         dist_of lat lon ((GREENLAND_AIRPORTS @ MINING_HELIPORTS) ! i)
           \<le> dist_of lat lon ((GREENLAND_AIRPORTS @ MINING_HELIPORTS) ! j)) \<and>
      (\<forall>j < i. dist_of lat lon ((GREENLAND_AIRPORTS @ MINING_HELIPORTS) ! i)
           < dist_of lat lon ((GREENLAND_AIRPORTS @ MINING_HELIPORTS) ! j))"
    unfolding find_nearest_airport_def all_locations_eq by (rule nearest_scan_first_min)
next
  assume "registry \<noteq> []"
  then show "\<exists>i < length registry.
         nearest_scan lat lon registry (None, None) = Some (candidate lat lon (registry ! i)) \<and>
         (\<forall>j < length registry. dist_of lat lon (registry ! i) \<le> dist_of lat lon (registry ! j)) \<and>
         (\<forall>j < i. dist_of lat lon (registry ! i) < dist_of lat lon (registry ! j))"
    by (rule nearest_scan_first_min)
qed

text \<open>
  At the coordinates of the Nalunaq heliport, the last entry, the seventeen entries before
  it are strictly farther and the heliport is returned. With two points at exactly the same
  distance from the query, ten degrees east and ten degrees west of it on the equator, the
  one registered first is returned.
\<close>

theorem find_nearest_airport_first_minimum_witness:
  "find_nearest_airport 60.2333 (- 44.8000) = Some (''BGNL'', ''Nalunaq Heliport'', 0) \<and>
   haversine_km 0 0 0 10 = haversine_km 0 0 0 (- 10) \<and>
   nearest_scan 0 0
     [(''EAST'', \<lparr>loc_name = ''East'', loc_lat = 0, loc_lon = 10\<rparr>),
      (''WEST'', \<lparr>loc_name = ''West'', loc_lat = 0, loc_lon = - 10\<rparr>)] (None, None) =
     Some (''EAST'', ''East'', haversine_km 0 0 0 10)"
proof (intro conjI)
  let ?lat = "60.2333 :: real" and ?lon = "- 44.8000 :: real"
  let ?reg = "GREENLAND_AIRPORTS @ MINING_HELIPORTS"
  obtain i where i: "i < length ?reg"
    and res: "find_nearest_airport ?lat ?lon = Some (candidate ?lat ?lon (?reg ! i))"
    and least: "\<forall>j < length ?reg. dist_of ?lat ?lon (?reg ! i) \<le> dist_of ?lat ?lon (?reg ! j)"
    using find_nearest_airport_first_minimum[of ?lat ?lon "[]"] by blast
  have d17: "dist_of ?lat ?lon (?reg ! 17) = 0"
    unfolding registry_last by (simp add: dist_of_def haversine_km_self)
  have l17: "17 < length ?reg" unfolding registry_length by simp
  have le0: "dist_of ?lat ?lon (?reg ! i) \<le> 0"
    using least[rule_format, OF l17] d17 by simp
  have "length (butlast ?reg) = length ?reg - 1" by (rule length_butlast)
  then have lb: "length (butlast ?reg) = 17" unfolding registry_length by simp
  have i18: "i < 18" using i unfolding registry_length .
  have "i = 17"
  proof (rule ccontr)
    assume "i \<noteq> 17"
    then have i17: "i < length (butlast ?reg)" using i18 unfolding lb by simp
    then have "butlast ?reg ! i \<in> set (butlast ?reg)" by (rule nth_mem)
    moreover have "butlast ?reg ! i = ?reg ! i" using i17 by (rule nth_butlast)
    ultimately have "?reg ! i \<in> set (butlast ?reg)" by simp
    then have "loc_lat (snd (?reg ! i)) \<noteq> ?lat \<and> - 90 \<le> loc_lat (snd (?reg ! i)) \<and>
        loc_lat (snd (?reg ! i)) \<le> 90"
      using registry_before_last by blast
    then have "0 < haversine_km ?lat ?lon (loc_lat (snd (?reg ! i))) (loc_lon (snd (?reg ! i)))"
      by (intro haversine_km_pos) auto
    then show False using le0 by (simp add: dist_of_def)
  qed
  then show "find_nearest_airport ?lat ?lon = Some (''BGNL'', ''Nalunaq Heliport'', 0)"
    using res by (simp add: registry_last candidate_def haversine_km_self)
next
  show tie: "haversine_km 0 0 0 10 = haversine_km 0 0 0 (- 10)"
    by (simp add: haversine_km_def radians_def Let_def)
  let ?reg = "[(''EAST'', \<lparr>loc_name = ''East'', loc_lat = 0, loc_lon = 10\<rparr>),
      (''WEST'', \<lparr>loc_name = ''West'', loc_lat = 0, loc_lon = - 10 :: real\<rparr>)]"
  have ne: "?reg \<noteq> []" by simp
  obtain i where i: "i < length ?reg"
    and res: "nearest_scan 0 0 ?reg (None, None) = Some (candidate 0 0 (?reg ! i))"
    and first: "\<forall>j < i. dist_of 0 0 (?reg ! i) < dist_of 0 0 (?reg ! j)"
    using find_nearest_airport_first_minimum[of 0 0 ?reg] ne by blast
  have "i = 0"
  proof (rule ccontr)
    assume "i \<noteq> 0"
    then have "i = 1" using i by simp
    then have "dist_of 0 0 (?reg ! 1) < dist_of 0 0 (?reg ! 0)" using first by simp
    then show False using tie by (simp add: dist_of_def)
  qed
  then show "nearest_scan 0 0 ?reg (None, None) = Some (''EAST'', ''East'', haversine_km 0 0 0 10)"
    using res by (simp add: candidate_def)
qed

text \<open>
  Claim C2. \<open>find_nearest_mine\<close> does not return the project of minimal distance: it
  returns the first project of \<open>MINING_PROJECTS\<close> within the threshold. For an aircraft
  at the coordinates of Kvanefjeld, with the default threshold of 50 km, it returns
  Tanbreez, which is within 50 km and registered first, although Kvanefjeld is at distance
  zero and Tanbreez is strictly farther.
\<close>

theorem find_nearest_mine_first_within_threshold:
  "find_nearest_mine 60.98 (- 45.90) 50 =
     Some (''tanbreez'', ''Tanbreez/Kringlerne'', ''Critical Metals Corp'',
           haversine_km 60.98 (- 45.90) 60.95 (- 45.95)) \<and>
   haversine_km 60.98 (- 45.90) 60.98 (- 45.90) < haversine_km 60.98 (- 45.90) 60.95 (- 45.95)"
  using kvanefjeld_to_tanbreez
  by (simp add: find_nearest_mine_def MINING_PROJECTS_def haversine_km_self Let_def)

section \<open>Properties of the arrival heuristic\<close>

text \<open>
  Claim C9. For a state vector polled at a monitored airport, \<open>process_aircraft\<close> returns a
  record whose likely-arrival flag is true exactly when the distance to that airport is
  under 20 km and either the on-ground flag is true or the altitude is present and under
  3000 m and the velocity is present and under 100 m/s; an absent altitude or velocity
  makes its condition false. With the on-ground flag true at 5 km the flag is true whatever
  altitude and velocity are; with the on-ground flag false and altitude 5000 m at 5 km it is
  false.
\<close>

theorem likely_arrival_flag:
  assumes "map_of CHOKE_POINTS airport_icao = Some airport"
  shows "(\<exists>rcd. process_aircraft now state airport_icao = Inr rcd \<and>
            rec_likely_arrival rcd =
              (haversine_km (cp_lat airport) (cp_lon airport) (sv_lat state) (sv_lon state) < 20 \<and>
               (sv_on_ground state = Some True \<or>
                (\<exists>a. sv_altitude state = Some a \<and> a < 3000) \<and>
                (\<exists>v. sv_velocity state = Some v \<and> v < 100)))) \<and>
         likely_arrival altitude velocity (Some True) 5 \<and>
         \<not> likely_arrival (Some 5000) velocity (Some False) 5"
proof -
  have "likely_arrival alt vel og d =
          (d < 20 \<and> (og = Some True \<or> (\<exists>a. alt = Some a \<and> a < 3000) \<and> (\<exists>v. vel = Some v \<and> v < 100)))"
    for alt vel og d
    by (cases alt; cases vel) (auto simp: likely_arrival_def truthy_def)
  then show ?thesis
    using assms
    by (simp add: process_aircraft_def Let_def split: prod.splits)
qed

text \<open>An aircraft on the ground at the coordinates of Narsarsuaq, altitude and velocity absent.\<close>

theorem likely_arrival_flag_witness:
  "\<exists>rcd. process_aircraft 0
       \<lparr>sv_icao24 = ''a12345'', sv_callsign = Some ''N123AB'', sv_lon = - 45.4260,
        sv_lat = 61.1605, sv_altitude = None, sv_on_ground = Some True, sv_velocity = None\<rparr>
       ''BGBW'' = Inr rcd \<and> rec_likely_arrival rcd"
proof -
  have "map_of CHOKE_POINTS ''BGBW'' =
          Some \<lparr>cp_name = ''Narsarsuaq'', cp_lat = 61.1605, cp_lon = - 45.4260,
                cp_signal = ''RED'', cp_monitoring_radius_km = 50\<rparr>"
    by (simp add: CHOKE_POINTS_def)
  from likely_arrival_flag[OF this, of 0
       "\<lparr>sv_icao24 = ''a12345'', sv_callsign = Some ''N123AB'', sv_lon = - 45.4260,
        sv_lat = 61.1605, sv_altitude = None, sv_on_ground = Some True, sv_velocity = None\<rparr>"]
  show ?thesis by (simp add: haversine_km_def radians_def atan2_def)
qed

section \<open>Properties of the priority alerts\<close>

text \<open>
  Claim C6. For a record at a monitored airport \<open>generate_priority_alert\<close> returns at most
  one alert: CRITICAL for priority 1 at the airport of signal RED, which is BGBW and no
  other; HIGH for priority 1 at another monitored airport; MEDIUM for priority 2 at the RED
  airport; and no alert for every other combination, priority 3 among them.
\<close>

theorem generate_priority_alert_rules:
  assumes "map_of CHOKE_POINTS (rec_airport_icao rcd) = Some airport"
  shows "\<exists>res. generate_priority_alert rcd = Inr res \<and>
     (cp_signal airport = ''RED'' \<longleftrightarrow> rec_airport_icao rcd = ''BGBW'') \<and>
     (rec_priority rcd = 1 \<and> cp_signal airport = ''RED'' \<longrightarrow>
        (\<exists>a. res = Some a \<and> al_level a = Some ''CRITICAL'')) \<and>
     (rec_priority rcd = 1 \<and> cp_signal airport \<noteq> ''RED'' \<longrightarrow>
        (\<exists>a. res = Some a \<and> al_level a = Some ''HIGH'')) \<and>
     (rec_priority rcd = 2 \<and> cp_signal airport = ''RED'' \<longrightarrow>
        (\<exists>a. res = Some a \<and> al_level a = Some ''MEDIUM'')) \<and>
     (rec_priority rcd \<noteq> 1 \<and> \<not> (rec_priority rcd = 2 \<and> cp_signal airport = ''RED'') \<longrightarrow>
        res = None)"
proof -
  have "cp_signal airport = ''RED'' \<longleftrightarrow> rec_airport_icao rcd = ''BGBW''"
    using assms by (auto simp: CHOKE_POINTS_def split: if_splits)
  then show ?thesis
    using assms by (simp add: generate_priority_alert_def no_keys_def)
qed

text \<open>A priority-1 record at Narsarsuaq gives one CRITICAL alert.\<close>

theorem generate_priority_alert_rules_witness:
  "\<exists>a. generate_priority_alert
      \<lparr>rec_timestamp = 25200, rec_airport_icao = ''BGBW'', rec_airport_name = ''Narsarsuaq'',
        rec_airport_signal = ''RED'', rec_icao24 = ''a12345'', rec_callsign = ''N123AB'',
        rec_lat = 61, rec_lon = - 45, rec_altitude_m = Some 500, rec_velocity_ms = Some 10,
        rec_on_ground = Some True, rec_distance_km = 5, rec_likely_arrival = True,
        rec_priority = 1, rec_classification = ''private_us'',
        rec_classification_notes = ''US N-number - PRIORITY TARGET''\<rparr> = Inr (Some a) \<and>
      al_level a = Some ''CRITICAL''"
proof -
  let ?obs = "\<lparr>rec_timestamp = 25200, rec_airport_icao = ''BGBW'', rec_airport_name = ''Narsarsuaq'',
        rec_airport_signal = ''RED'', rec_icao24 = ''a12345'', rec_callsign = ''N123AB'',
        rec_lat = 61, rec_lon = - 45, rec_altitude_m = Some 500, rec_velocity_ms = Some 10,
        rec_on_ground = Some True, rec_distance_km = 5, rec_likely_arrival = True,
        rec_priority = 1, rec_classification = ''private_us'',
        rec_classification_notes = ''US N-number - PRIORITY TARGET''\<rparr>"
  have "map_of CHOKE_POINTS (rec_airport_icao ?obs) =
          Some \<lparr>cp_name = ''Narsarsuaq'', cp_lat = 61.1605, cp_lon = - 45.4260,
                cp_signal = ''RED'', cp_monitoring_radius_km = 50\<rparr>"
    by (simp add: CHOKE_POINTS_def)
  from generate_priority_alert_rules[OF this] show ?thesis by auto
qed

section \<open>Properties of the classifier\<close>

lemma scheduled_prefix_None:
  "scheduled_prefix cs ps = None \<longleftrightarrow> \<not> startswith_any cs ps"
  by (induction ps) (auto simp: startswith_any_def)

text \<open>
  Claim C4. \<open>classify_aircraft\<close> applies its rules in order to the trimmed, upper-cased
  callsign and the lower-cased address, the first match deciding: a scheduled prefix gives
  priority 5 and the label scheduled, whatever the callsign or the address match further
  down; otherwise a military prefix gives priority 4; otherwise an address starting with a,
  c0, c1, c2 or c3 gives priority 1; otherwise an address starting with 4 or tf gives
  priority 2; otherwise the result is priority 3 and the label unknown.
\<close>

theorem classify_aircraft_rule_order:
  "let cs = str_upper (str_strip (or_empty callsign));
       hx = str_lower (or_empty icao24);
       (priority, label, notes) = classify_aircraft callsign icao24;
       scheduled = startswith_any cs SCHEDULED_CALLSIGN_PREFIXES;
       military = startswith_any cs
         [''RCH'', ''RRR'', ''REACH'', ''CNV'', ''DUKE'', ''DAF'', ''DNK'', ''DANSUP'',
          ''CFC'', ''CFF'', ''CANFORCE''];
       us_or_ca = (startswith hx ''a'' \<or> startswith_any hx [''c0'', ''c1'', ''c2'', ''c3'']);
       secondary = (startswith hx ''4'' \<or> startswith hx ''tf'')
   in (scheduled \<longrightarrow> priority = 5 \<and> label = ''scheduled'') \<and>
      (\<not> scheduled \<and> military \<longrightarrow> priority = 4) \<and>
      (\<not> scheduled \<and> \<not> military \<and> us_or_ca \<longrightarrow> priority = 1) \<and>
      (\<not> scheduled \<and> \<not> military \<and> \<not> us_or_ca \<and> secondary \<longrightarrow> priority = 2) \<and>
      (\<not> scheduled \<and> \<not> military \<and> \<not> us_or_ca \<and> \<not> secondary \<longrightarrow>
         priority = 3 \<and> label = ''unknown'')"
proof (cases "scheduled_prefix (str_upper (str_strip (or_empty callsign))) SCHEDULED_CALLSIGN_PREFIXES")
  case None
  then have "\<not> startswith_any (str_upper (str_strip (or_empty callsign))) SCHEDULED_CALLSIGN_PREFIXES"
    by (simp add: scheduled_prefix_None)
  then show ?thesis using None
    by (simp add: classify_aircraft_def Let_def startswith_any_def)
next
  case (Some p)
  then have "startswith_any (str_upper (str_strip (or_empty callsign))) SCHEDULED_CALLSIGN_PREFIXES"
    using scheduled_prefix_None[of "str_upper (str_strip (or_empty callsign))" SCHEDULED_CALLSIGN_PREFIXES]
    by simp
  then show ?thesis using Some
    by (simp add: classify_aircraft_def Let_def)
qed

text \<open>A scheduled callsign, in lower case and padded, with a US address: priority 5.\<close>

theorem classify_aircraft_rule_order_witness:
  "startswith_any (str_upper (str_strip (or_empty (Some '' grl123 '')))) SCHEDULED_CALLSIGN_PREFIXES \<and>
   startswith (str_lower (or_empty (Some ''A12345''))) ''a'' \<and>
   fst (classify_aircraft (Some '' grl123 '') (Some ''A12345'')) = 5 \<and>
   fst (snd (classify_aircraft (Some '' grl123 '') (Some ''A12345''))) = ''scheduled''"
proof -
  have s: "startswith_any (str_upper (str_strip (or_empty (Some '' grl123 '')))) SCHEDULED_CALLSIGN_PREFIXES"
    by (simp add: str_upper_def str_strip_def or_empty_def is_space_def upper_char_def
        startswith_def startswith_any_def SCHEDULED_CALLSIGN_PREFIXES_def)
  have h: "startswith (str_lower (or_empty (Some ''A12345''))) ''a''"
    by (simp add: str_lower_def or_empty_def lower_char_def startswith_def)
  show ?thesis
    using classify_aircraft_rule_order[of "Some '' grl123 ''" "Some ''A12345''"] s h
    by (simp add: Let_def split: prod.splits)
qed

section \<open>Properties of the dwell tracker\<close>

lemma update_absent: "map_of st k = None \<Longrightarrow> AList.update k v st = st @ [(k, v)]"
  by (induction st) (auto split: if_splits)

lemma update_keeps_others:
  "(k, d) \<in> set st \<Longrightarrow> k \<noteq> k' \<Longrightarrow> (k, d) \<in> set (AList.update k' v st)"
  by (induction st) auto

lemma update_set_subset: "set (AList.update k v st) \<subseteq> insert (k, v) (set st)"
  by (induction st) auto

lemma track_skip: "\<not> qualifies rcd \<Longrightarrow> track rcd st = st"
  by (auto simp: track_def qualifies_def)

lemma track_create:
  assumes "qualifies rcd" "map_of st (dwell_key rcd) = None"
  shows "track rcd st = st @ [(dwell_key rcd,
           \<lparr>dw_icao24 = rec_icao24 rcd, dw_callsign = rec_callsign rcd,
            dw_airport = rec_airport_name rcd, dw_airport_icao = rec_airport_icao rcd,
            dw_first_seen = rec_timestamp rcd, dw_last_seen = rec_timestamp rcd,
            dw_classification = rec_classification rcd, dw_dwell_hours = None\<rparr>)]"
  using assms by (simp add: track_def qualifies_def Let_def update_absent)

lemma track_extend:
  assumes "qualifies rcd" "map_of st (dwell_key rcd) = Some d"
  shows "map_of (track rcd st) =
           (map_of st)(dwell_key rcd \<mapsto>
              d\<lparr>dw_last_seen := rec_timestamp rcd,
                dw_callsign := (if rec_callsign rcd \<noteq> [] then rec_callsign rcd else dw_callsign d)\<rparr>)"
  using assms by (simp add: track_def qualifies_def Let_def update_conv')

lemma track_first_seen:
  assumes "map_of st k = Some d"
  shows "\<exists>d'. map_of (track rcd st) k = Some d' \<and> dw_first_seen d' = dw_first_seen d"
proof (cases "qualifies rcd")
  case False
  then show ?thesis using assms by (simp add: track_skip)
next
  case True
  show ?thesis
  proof (cases "map_of st (dwell_key rcd)")
    case None
    then have "k \<noteq> dwell_key rcd" using assms by auto
    then show ?thesis using assms True None
      by (simp add: track_def qualifies_def Let_def update_conv')
  next
    case (Some e)
    show ?thesis
      using assms Some by (cases "k = dwell_key rcd") (simp_all add: track_extend[OF True Some])
  qed
qed

lemma track_all_first_seen:
  "map_of st k = Some d \<Longrightarrow>
   \<exists>d'. map_of (track_all records st) k = Some d' \<and> dw_first_seen d' = dw_first_seen d"
proof (induction records arbitrary: st d)
  case Nil
  then show ?case by simp
next
  case (Cons rcd records)
  from track_first_seen[OF Cons.prems, of rcd]
  obtain e where e: "map_of (track rcd st) k = Some e" "dw_first_seen e = dw_first_seen d" by blast
  from Cons.IH[OF e(1)] e(2) show ?case by auto
qed

lemma track_all_append: "track_all (rs @ [rcd]) st = track rcd (track_all rs st)"
  by (induction rs arbitrary: st) simp_all

lemma track_keeps_others:
  "(k, d) \<in> set st \<Longrightarrow> (qualifies rcd \<longrightarrow> dwell_key rcd \<noteq> k) \<Longrightarrow> (k, d) \<in> set (track rcd st)"
  by (cases "qualifies rcd")
     (auto simp: track_skip track_def qualifies_def Let_def update_keeps_others split: option.splits)

lemma track_all_keeps_others:
  "(k, d) \<in> set st \<Longrightarrow> \<forall>r \<in> set records. qualifies r \<longrightarrow> dwell_key r \<noteq> k \<Longrightarrow>
   (k, d) \<in> set (track_all records st)"
  by (induction records arbitrary: st) (simp_all add: track_keeps_others)

lemma dwell_ok_mono: "dwell_ok t st \<Longrightarrow> t \<le> t' \<Longrightarrow> dwell_ok t' st"
  by (fastforce simp: dwell_ok_def)

lemma track_dwell_ok:
  assumes "dwell_ok t st" "t \<le> rec_timestamp rcd"
  shows "dwell_ok (rec_timestamp rcd) (track rcd st)"
proof (cases "qualifies rcd")
  case False
  then show ?thesis using assms by (simp add: track_skip dwell_ok_mono)
next
  case True
  have old: "dwell_ok (rec_timestamp rcd) st" using assms by (rule dwell_ok_mono)
  show ?thesis
  proof (cases "map_of st (dwell_key rcd)")
    case None
    show ?thesis using old by (simp add: track_create[OF True None] dwell_ok_def)
  next
    case (Some d)
    then have "(dwell_key rcd, d) \<in> set st" by (rule map_of_SomeD)
    then have d: "dw_first_seen d \<le> dw_last_seen d" "dw_last_seen d \<le> t"
      using assms(1) by (auto simp: dwell_ok_def)
    let ?d' = "d\<lparr>dw_last_seen := rec_timestamp rcd,
                dw_callsign := (if rec_callsign rcd \<noteq> [] then rec_callsign rcd else dw_callsign d)\<rparr>"
    have tr: "track rcd st = AList.update (dwell_key rcd) ?d' st"
      using True Some by (simp add: track_def qualifies_def Let_def)
    have "dw_first_seen ?d' \<le> dw_last_seen ?d'" using d assms(2) by simp
    then show ?thesis
      unfolding tr dwell_ok_def using update_set_subset[of "dwell_key rcd" ?d' st] old
      by (auto simp: dwell_ok_def)
  qed
qed

lemma track_all_dwell_ok:
  "dwell_ok t st \<Longrightarrow> sorted (t # map rec_timestamp records) \<Longrightarrow>
   dwell_ok (last (t # map rec_timestamp records)) (track_all records st)"
proof (induction records arbitrary: t st)
  case Nil
  then show ?case by simp
next
  case (Cons rcd records)
  have "t \<le> rec_timestamp rcd" using Cons.prems(2) by simp
  with Cons.prems(1) have "dwell_ok (rec_timestamp rcd) (track rcd st)"
    by (rule track_dwell_ok)
  moreover have "sorted (rec_timestamp rcd # map rec_timestamp records)"
    using Cons.prems(2) by simp
  ultimately have "dwell_ok (last (rec_timestamp rcd # map rec_timestamp records))
      (track_all records (track rcd st))" by (rule Cons.IH)
  then show ?case by simp
qed

lemma dwell_hours_of_eq:
  "dwell_hours_of d = real_of_int (dw_last_seen d - dw_first_seen d) / 3600"
proof -
  have "strptime (dw_last_seen d) - strptime (dw_first_seen d) =
        (dw_last_seen d - dw_first_seen d) * 1000000"
    by (simp add: strptime_def algebra_simps)
  then have "total_seconds (strptime (dw_last_seen d) - strptime (dw_first_seen d)) =
        real_of_int (dw_last_seen d - dw_first_seen d)"
    by (simp add: total_seconds_def)
  then show ?thesis by (simp add: dwell_hours_of_def Let_def)
qed

lemma dwell_hours_ge_4: "dwell_hours_of d \<ge> 4 \<longleftrightarrow> 4 * 3600 \<le> dw_last_seen d - dw_first_seen d"
proof -
  have "real_of_int (dw_last_seen d - dw_first_seen d) / 3600 \<ge> 4 \<longleftrightarrow>
        real_of_int (4 * 3600) \<le> real_of_int (dw_last_seen d - dw_first_seen d)"
    by (simp add: le_divide_eq)
  also have "\<dots> \<longleftrightarrow> 4 * 3600 \<le> dw_last_seen d - dw_first_seen d"
    by (rule of_int_le_iff)
  finally show ?thesis by (simp only: dwell_hours_of_eq)
qed

lemma with_hours_fields [simp]:
  "dw_first_seen (with_hours d) = dw_first_seen d"
  "dw_last_seen (with_hours d) = dw_last_seen d"
  "dw_airport_icao (with_hours d) = dw_airport_icao d"
  by (simp_all add: with_hours_def)

lemma dwell_hours_of_with_hours [simp]: "dwell_hours_of (with_hours d) = dwell_hours_of d"
  by (simp add: dwell_hours_of_def)

lemma with_hours_idem [simp]: "with_hours (with_hours d) = with_hours d"
  by (simp add: with_hours_def dwell_hours_of_def)

lemma flag_long_stays_Cons:
  "flag_long_stays ((key, d) # rest) =
     ((key, with_hours d) # fst (flag_long_stays rest),
      (if 4 * 3600 \<le> dw_last_seen d - dw_first_seen d \<and> dw_airport_icao d = ''BGBW''
       then extended_dwell_alert (with_hours d) # snd (flag_long_stays rest)
       else snd (flag_long_stays rest)))"
  by (simp add: Let_def dwell_hours_ge_4 split_beta)

lemma flag_long_stays_fst: "fst (flag_long_stays xs) = map (\<lambda>(k, d). (k, with_hours d)) xs"
proof (induction xs)
  case Nil
  show ?case by simp
next
  case (Cons x xs)
  obtain k d where x: "x = (k, d)" by (cases x)
  show ?case unfolding x flag_long_stays_Cons using Cons.IH by simp
qed

lemma flag_long_stays_snd:
  "snd (flag_long_stays xs) =
     map extended_dwell_alert
       (filter (\<lambda>d. dw_airport_icao d = ''BGBW'' \<and> 4 * 3600 \<le> dw_last_seen d - dw_first_seen d)
          (map (with_hours \<circ> snd) xs))"
proof (induction xs)
  case Nil
  show ?case by simp
next
  case (Cons x xs)
  obtain k d where x: "x = (k, d)" by (cases x)
  show ?case unfolding x flag_long_stays_Cons using Cons.IH by simp
qed

lemma update_dwell_tracking_eq:
  "update_dwell_tracking records now file =
     (snd (flag_long_stays (track_all records (load_dwell file))),
      Some (filter (\<lambda>(k, d). now - 48 * 3600 * 1000000 < dw_last_seen d * 1000000)
             (fst (flag_long_stays (track_all records (load_dwell file))))))"
  by (simp add: update_dwell_tracking_def Let_def split_beta strptime_def timedelta_hours_def)

lemma update_dwell_tracking_alerts:
  "fst (update_dwell_tracking records now file) =
     snd (flag_long_stays (track_all records (load_dwell file)))"
  by (simp add: update_dwell_tracking_eq)

lemma update_dwell_tracking_file:
  "snd (update_dwell_tracking records now file) =
     Some (filter (\<lambda>(k, d). now - 48 * 3600 * 1000000 < dw_last_seen d * 1000000)
            (map (\<lambda>(k, d). (k, with_hours d)) (track_all records (load_dwell file))))"
  by (simp add: update_dwell_tracking_eq flag_long_stays_fst)

text \<open>
  The alert loop of \<open>update_dwell_tracking\<close>: in the order of the store, one alert for each
  record of the store as updated in this invocation whose airport is BGBW and whose
  last-seen is at least four hours after its first-seen, and no other; each has type
  EXTENDED\_DWELL and the value HIGH under the key priority. Nothing is suppressed from one
  invocation to the next: a record written back with that condition raises the same alert
  again, as long as no new qualifying observation changes it.
\<close>

lemma extended_dwell_alerts_of_invocation:
  "fst (update_dwell_tracking records now file) =
     map extended_dwell_alert
       (filter (\<lambda>d. dw_airport_icao d = ''BGBW'' \<and> 4 * 3600 \<le> dw_last_seen d - dw_first_seen d)
          (map (with_hours \<circ> snd) (track_all records (load_dwell file)))) \<and>
   (\<forall>a \<in> set (fst (update_dwell_tracking records now file)).
      al_priority a = Some ''HIGH'' \<and> al_type a = Some ''EXTENDED_DWELL'') \<and>
   (\<forall>k d st records' now'.
      snd (update_dwell_tracking records now file) = Some st \<and> (k, d) \<in> set st \<and>
      dw_airport_icao d = ''BGBW'' \<and> 4 * 3600 \<le> dw_last_seen d - dw_first_seen d \<and>
      (\<forall>r \<in> set records'. qualifies r \<longrightarrow> dwell_key r \<noteq> k) \<longrightarrow>
      extended_dwell_alert d \<in> set (fst (update_dwell_tracking records now file)) \<and>
      extended_dwell_alert d \<in> set (fst (update_dwell_tracking records' now' (Some st))))"
proof -
  have eq: "fst (update_dwell_tracking rs t f) =
     map extended_dwell_alert
       (filter (\<lambda>d. dw_airport_icao d = ''BGBW'' \<and> 4 * 3600 \<le> dw_last_seen d - dw_first_seen d)
          (map (with_hours \<circ> snd) (track_all rs (load_dwell f))))"
    for rs t f
    by (simp only: update_dwell_tracking_alerts flag_long_stays_snd)
  show ?thesis
  proof (intro conjI allI impI ballI)
  show "fst (update_dwell_tracking records now file) =
     map extended_dwell_alert
       (filter (\<lambda>d. dw_airport_icao d = ''BGBW'' \<and> 4 * 3600 \<le> dw_last_seen d - dw_first_seen d)
          (map (with_hours \<circ> snd) (track_all records (load_dwell file))))"
    by (rule eq)
  {
    fix a
    assume "a \<in> set (fst (update_dwell_tracking records now file))"
    then obtain d where "a = extended_dwell_alert d" unfolding eq by auto
    then show "al_priority a = Some ''HIGH''" "al_type a = Some ''EXTENDED_DWELL''"
      by (simp_all add: extended_dwell_alert_def no_keys_def)
  }
  {
    fix k d st records' now'
    assume h: "snd (update_dwell_tracking records now file) = Some st \<and> (k, d) \<in> set st \<and>
      dw_airport_icao d = ''BGBW'' \<and> 4 * 3600 \<le> dw_last_seen d - dw_first_seen d \<and>
      (\<forall>r \<in> set records'. qualifies r \<longrightarrow> dwell_key r \<noteq> k)"
    let ?w = "track_all records (load_dwell file)"
    from h have "(k, d) \<in> set (map (\<lambda>(k, d). (k, with_hours d)) ?w)"
      by (auto simp: update_dwell_tracking_file)
    then obtain d0 where d0: "(k, d0) \<in> set ?w" "d = with_hours d0" by auto
    then have "with_hours d0 \<in> set (map (with_hours \<circ> snd) ?w)" by force
    then show "extended_dwell_alert d \<in> set (fst (update_dwell_tracking records now file))"
      unfolding eq using h d0(2) by simp
    have "(k, d) \<in> set (track_all records' (load_dwell (Some st)))"
      using h by (intro track_all_keeps_others) (simp_all add: load_dwell_def)
    then have "with_hours d \<in> set (map (with_hours \<circ> snd) (track_all records' (load_dwell (Some st))))"
      by force
    moreover have "with_hours d = d" using d0(2) by simp
    ultimately show "extended_dwell_alert d \<in> set (fst (update_dwell_tracking records' now' (Some st)))"
      unfolding eq using h by simp
  }
qed
qed


text \<open>
  Claim C8. When every record of the loaded store has first-seen at most last-seen at most
  \<open>t0\<close>, and the time stamps of the new records do not decrease from \<open>t0\<close> on, every
  record of the store written back has first-seen at most last-seen (at most the latest time
  stamp). The loop body changes the store only for a record on the ground of priority at
  most 2: for a key not in the store it appends a record with first-seen and last-seen both
  the time stamp of the observation; for a key in the store it sets last-seen, and the
  callsign when the new one is not empty, and nothing else. Over a whole batch a record that
  was in the loaded store keeps its first-seen.
\<close>

theorem dwell_first_seen_le_last_seen:
  assumes "\<forall>(k, d) \<in> set (load_dwell file). dw_first_seen d \<le> dw_last_seen d \<and> dw_last_seen d \<le> t0"
    and "sorted (t0 # map rec_timestamp records)"
  shows "(\<forall>st. snd (update_dwell_tracking records now file) = Some st \<longrightarrow>
            (\<forall>(k, d) \<in> set st. dw_first_seen d \<le> dw_last_seen d \<and>
                dw_last_seen d \<le> last (t0 # map rec_timestamp records))) \<and>
         (\<not> qualifies rcd \<longrightarrow> track rcd store = store) \<and>
         (qualifies rcd \<and> map_of store (dwell_key rcd) = None \<longrightarrow>
            track rcd store = store @ [(dwell_key rcd,
              \<lparr>dw_icao24 = rec_icao24 rcd, dw_callsign = rec_callsign rcd,
               dw_airport = rec_airport_name rcd, dw_airport_icao = rec_airport_icao rcd,
               dw_first_seen = rec_timestamp rcd, dw_last_seen = rec_timestamp rcd,
               dw_classification = rec_classification rcd, dw_dwell_hours = None\<rparr>)]) \<and>
         (\<forall>e. qualifies rcd \<and> map_of store (dwell_key rcd) = Some e \<longrightarrow>
            map_of (track rcd store) =
              (map_of store)(dwell_key rcd \<mapsto>
                 e\<lparr>dw_last_seen := rec_timestamp rcd,
                   dw_callsign := (if rec_callsign rcd \<noteq> [] then rec_callsign rcd
                                   else dw_callsign e)\<rparr>)) \<and>
         (\<forall>k e. map_of (load_dwell file) k = Some e \<longrightarrow>
            (\<exists>e'. map_of (track_all records (load_dwell file)) k = Some e' \<and>
                   dw_first_seen e' = dw_first_seen e))"
proof (intro conjI allI impI)
  fix st
  assume st: "snd (update_dwell_tracking records now file) = Some st"
  have "dwell_ok t0 (load_dwell file)" using assms(1) by (simp add: dwell_ok_def)
  then have ok: "dwell_ok (last (t0 # map rec_timestamp records)) (track_all records (load_dwell file))"
    using assms(2) by (rule track_all_dwell_ok)
  have "set st \<subseteq> set (map (\<lambda>(k, d). (k, with_hours d)) (track_all records (load_dwell file)))"
    using st by (auto simp: update_dwell_tracking_file)
  then show "\<forall>(k, d) \<in> set st. dw_first_seen d \<le> dw_last_seen d \<and>
                dw_last_seen d \<le> last (t0 # map rec_timestamp records)"
    using ok unfolding dwell_ok_def by fastforce
next
  assume "\<not> qualifies rcd"
  then show "track rcd store = store" by (rule track_skip)
next
  assume "qualifies rcd \<and> map_of store (dwell_key rcd) = None"
  then show "track rcd store = store @ [(dwell_key rcd,
              \<lparr>dw_icao24 = rec_icao24 rcd, dw_callsign = rec_callsign rcd,
               dw_airport = rec_airport_name rcd, dw_airport_icao = rec_airport_icao rcd,
               dw_first_seen = rec_timestamp rcd, dw_last_seen = rec_timestamp rcd,
               dw_classification = rec_classification rcd, dw_dwell_hours = None\<rparr>)]"
    by (simp add: track_create)
next
  fix e
  assume "qualifies rcd \<and> map_of store (dwell_key rcd) = Some e"
  then show "map_of (track rcd store) =
              (map_of store)(dwell_key rcd \<mapsto>
                 e\<lparr>dw_last_seen := rec_timestamp rcd,
                   dw_callsign := (if rec_callsign rcd \<noteq> [] then rec_callsign rcd
                                   else dw_callsign e)\<rparr>)"
    by (simp add: track_extend)
next
  fix k e
  assume "map_of (load_dwell file) k = Some e"
  then show "\<exists>e'. map_of (track_all records (load_dwell file)) k = Some e' \<and>
                   dw_first_seen e' = dw_first_seen e"
    by (rule track_all_first_seen)
qed

text \<open>
  A record seen from 0 to 18000, observed again at 25200 with an empty callsign: last-seen
  moves to 25200, first-seen and the callsign stay.
\<close>

theorem dwell_first_seen_le_last_seen_witness:
  "snd (update_dwell_tracking
      [\<lparr>rec_timestamp = 25200, rec_airport_icao = ''BGBW'', rec_airport_name = ''Narsarsuaq'',
        rec_airport_signal = ''RED'', rec_icao24 = ''a12345'', rec_callsign = [],
        rec_lat = 61, rec_lon = - 45, rec_altitude_m = Some 500, rec_velocity_ms = Some 10,
        rec_on_ground = Some True, rec_distance_km = 5, rec_likely_arrival = True,
        rec_priority = 1, rec_classification = ''private_us'',
        rec_classification_notes = ''US N-number - PRIORITY TARGET''\<rparr>]
      (25200 * 1000000)
      (Some [(''a12345_BGBW'',
         \<lparr>dw_icao24 = ''a12345'', dw_callsign = ''N123AB'', dw_airport = ''Narsarsuaq'',
          dw_airport_icao = ''BGBW'', dw_first_seen = 0, dw_last_seen = 18000,
          dw_classification = ''private_us'', dw_dwell_hours = Some 5\<rparr>)])) =
   Some [(''a12345_BGBW'',
         \<lparr>dw_icao24 = ''a12345'', dw_callsign = ''N123AB'', dw_airport = ''Narsarsuaq'',
          dw_airport_icao = ''BGBW'', dw_first_seen = 0, dw_last_seen = 25200,
          dw_classification = ''private_us'', dw_dwell_hours = Some 7\<rparr>)] \<and>
   dw_first_seen
      \<lparr>dw_icao24 = ''a12345'', dw_callsign = ''N123AB'', dw_airport = ''Narsarsuaq'',
       dw_airport_icao = ''BGBW'', dw_first_seen = 0, dw_last_seen = 25200,
       dw_classification = ''private_us'', dw_dwell_hours = Some 7\<rparr>
     \<le> dw_last_seen
      \<lparr>dw_icao24 = ''a12345'', dw_callsign = ''N123AB'', dw_airport = ''Narsarsuaq'',
       dw_airport_icao = ''BGBW'', dw_first_seen = 0, dw_last_seen = 25200,
       dw_classification = ''private_us'', dw_dwell_hours = Some 7\<rparr>"
proof -
  let ?obs = "\<lparr>rec_timestamp = 25200, rec_airport_icao = ''BGBW'', rec_airport_name = ''Narsarsuaq'',
        rec_airport_signal = ''RED'', rec_icao24 = ''a12345'', rec_callsign = [],
        rec_lat = 61, rec_lon = - 45, rec_altitude_m = Some 500, rec_velocity_ms = Some 10,
        rec_on_ground = Some True, rec_distance_km = 5, rec_likely_arrival = True,
        rec_priority = 1, rec_classification = ''private_us'',
        rec_classification_notes = ''US N-number - PRIORITY TARGET''\<rparr>"
  let ?old = "\<lparr>dw_icao24 = ''a12345'', dw_callsign = ''N123AB'', dw_airport = ''Narsarsuaq'',
          dw_airport_icao = ''BGBW'', dw_first_seen = 0, dw_last_seen = 18000,
          dw_classification = ''private_us'', dw_dwell_hours = Some 5\<rparr>"
  let ?new = "\<lparr>dw_icao24 = ''a12345'', dw_callsign = ''N123AB'', dw_airport = ''Narsarsuaq'',
          dw_airport_icao = ''BGBW'', dw_first_seen = 0, dw_last_seen = 25200,
          dw_classification = ''private_us'', dw_dwell_hours = Some 7\<rparr>"
  have a1: "\<forall>(k, d) \<in> set (load_dwell (Some [(''a12345_BGBW'', ?old)])).
              dw_first_seen d \<le> dw_last_seen d \<and> dw_last_seen d \<le> 18000"
    by (simp add: load_dwell_def)
  have a2: "sorted (18000 # map rec_timestamp [?obs])" by simp
  have tr: "track ?obs [(''a12345_BGBW'', ?old)] =
      [(''a12345_BGBW'', \<lparr>dw_icao24 = ''a12345'', dw_callsign = ''N123AB'', dw_airport = ''Narsarsuaq'',
          dw_airport_icao = ''BGBW'', dw_first_seen = 0, dw_last_seen = 25200,
          dw_classification = ''private_us'', dw_dwell_hours = Some 5\<rparr>)]"
    by (simp add: track_def truthy_def dwell_key_def Let_def)
  have hrs: "with_hours
         \<lparr>dw_icao24 = ''a12345'', dw_callsign = ''N123AB'', dw_airport = ''Narsarsuaq'',
          dw_airport_icao = ''BGBW'', dw_first_seen = 0, dw_last_seen = 25200,
          dw_classification = ''private_us'', dw_dwell_hours = Some 5\<rparr> = ?new"
    by (simp add: with_hours_def dwell_hours_of_def strptime_def total_seconds_def)
  have st: "snd (update_dwell_tracking [?obs] (25200 * 1000000) (Some [(''a12345_BGBW'', ?old)])) =
      Some [(''a12345_BGBW'', ?new)]"
    by (simp add: update_dwell_tracking_def load_dwell_def Let_def tr hrs strptime_def
        timedelta_hours_def)
  from dwell_first_seen_le_last_seen[OF a1 a2, of "25200 * 1000000"] st
  show ?thesis by simp
qed

section \<open>Eviction of stale records\<close>

text \<open>
  Claim C1 as stated fails. The store holds a record last seen at 18000 s; the invocation
  runs half a second after 190800 s, so that the record is more than 48 hours stale, with
  one qualifying observation at 190800 s for the same key. The record is not replaced by a
  fresh one: it is written back with first-seen 0 and last-seen 190800.
\<close>

theorem stale_record_extended_counterexample:
  "strptime 18000 < 190800 * 1000000 + 500000 - timedelta_hours 48 \<and>
   snd (update_dwell_tracking
      [\<lparr>rec_timestamp = 190800, rec_airport_icao = ''BGBW'', rec_airport_name = ''Narsarsuaq'',
        rec_airport_signal = ''RED'', rec_icao24 = ''a12345'', rec_callsign = ''N123AB'',
        rec_lat = 61, rec_lon = - 45, rec_altitude_m = Some 500, rec_velocity_ms = Some 10,
        rec_on_ground = Some True, rec_distance_km = 5, rec_likely_arrival = True,
        rec_priority = 1, rec_classification = ''private_us'',
        rec_classification_notes = ''US N-number - PRIORITY TARGET''\<rparr>]
      (190800 * 1000000 + 500000)
      (Some [(''a12345_BGBW'',
         \<lparr>dw_icao24 = ''a12345'', dw_callsign = ''N123AB'', dw_airport = ''Narsarsuaq'',
          dw_airport_icao = ''BGBW'', dw_first_seen = 0, dw_last_seen = 18000,
          dw_classification = ''private_us'', dw_dwell_hours = Some 5\<rparr>)])) =
   Some [(''a12345_BGBW'',
         \<lparr>dw_icao24 = ''a12345'', dw_callsign = ''N123AB'', dw_airport = ''Narsarsuaq'',
          dw_airport_icao = ''BGBW'', dw_first_seen = 0, dw_last_seen = 190800,
          dw_classification = ''private_us'', dw_dwell_hours = Some 53\<rparr>)] \<and>
   (0 :: int) \<noteq> 190800"
proof -
  let ?obs = "\<lparr>rec_timestamp = 190800, rec_airport_icao = ''BGBW'', rec_airport_name = ''Narsarsuaq'',
        rec_airport_signal = ''RED'', rec_icao24 = ''a12345'', rec_callsign = ''N123AB'',
        rec_lat = 61, rec_lon = - 45, rec_altitude_m = Some 500, rec_velocity_ms = Some 10,
        rec_on_ground = Some True, rec_distance_km = 5, rec_likely_arrival = True,
        rec_priority = 1, rec_classification = ''private_us'',
        rec_classification_notes = ''US N-number - PRIORITY TARGET''\<rparr>"
  let ?old = "\<lparr>dw_icao24 = ''a12345'', dw_callsign = ''N123AB'', dw_airport = ''Narsarsuaq'',
          dw_airport_icao = ''BGBW'', dw_first_seen = 0, dw_last_seen = 18000,
          dw_classification = ''private_us'', dw_dwell_hours = Some 5\<rparr>"
  let ?new = "\<lparr>dw_icao24 = ''a12345'', dw_callsign = ''N123AB'', dw_airport = ''Narsarsuaq'',
          dw_airport_icao = ''BGBW'', dw_first_seen = 0, dw_last_seen = 190800,
          dw_classification = ''private_us'', dw_dwell_hours = Some 53\<rparr>"
  have tr: "track ?obs [(''a12345_BGBW'', ?old)] =
      [(''a12345_BGBW'', \<lparr>dw_icao24 = ''a12345'', dw_callsign = ''N123AB'', dw_airport = ''Narsarsuaq'',
          dw_airport_icao = ''BGBW'', dw_first_seen = 0, dw_last_seen = 190800,
          dw_classification = ''private_us'', dw_dwell_hours = Some 5\<rparr>)]"
    by (simp add: track_def truthy_def dwell_key_def Let_def)
  have hrs: "with_hours
         \<lparr>dw_icao24 = ''a12345'', dw_callsign = ''N123AB'', dw_airport = ''Narsarsuaq'',
          dw_airport_icao = ''BGBW'', dw_first_seen = 0, dw_last_seen = 190800,
          dw_classification = ''private_us'', dw_dwell_hours = Some 5\<rparr> = ?new"
    by (simp add: with_hours_def dwell_hours_of_def strptime_def total_seconds_def)
  have st: "snd (update_dwell_tracking [?obs] (190800 * 1000000 + 500000) (Some [(''a12345_BGBW'', ?old)])) =
      Some [(''a12345_BGBW'', ?new)]"
    by (simp add: update_dwell_tracking_def load_dwell_def Let_def tr hrs strptime_def
        timedelta_hours_def)
  have "strptime 18000 < 190800 * 1000000 + 500000 - timedelta_hours 48"
    by (simp add: strptime_def timedelta_hours_def)
  then show ?thesis using st by simp
qed

text \<open>
  Claim C1, amended. The records written back are those of the store as updated by the
  observations of the invocation whose last-seen is later than 48 hours before the
  invocation time: eviction comes after the observations and the alerts. So a qualifying
  observation for a key that is in the loaded store extends that record, first-seen kept
  and last-seen set to the time stamp of the observation, however stale the record was; a
  fresh record, first-seen equal to the time stamp of the observation, is created only for
  a key that is not in the store when the observation is processed.
\<close>

theorem eviction_after_tracking:
  "snd (update_dwell_tracking records now file) =
     Some (filter (\<lambda>(k, d). now - timedelta_hours 48 < strptime (dw_last_seen d))
            (map (\<lambda>(k, d). (k, with_hours d)) (track_all records (load_dwell file)))) \<and>
   (\<forall>e. qualifies rcd \<and> map_of (load_dwell file) (dwell_key rcd) = Some e \<longrightarrow>
      (\<exists>e'. map_of (track_all (rs @ [rcd]) (load_dwell file)) (dwell_key rcd) = Some e' \<and>
             dw_first_seen e' = dw_first_seen e \<and> dw_last_seen e' = rec_timestamp rcd)) \<and>
   (qualifies rcd \<and> map_of (track_all rs (load_dwell file)) (dwell_key rcd) = None \<longrightarrow>
      (\<exists>e'. map_of (track_all (rs @ [rcd]) (load_dwell file)) (dwell_key rcd) = Some e' \<and>
             dw_first_seen e' = rec_timestamp rcd \<and> dw_last_seen e' = rec_timestamp rcd))"
proof (intro conjI allI impI)
  show "snd (update_dwell_tracking records now file) =
     Some (filter (\<lambda>(k, d). now - timedelta_hours 48 < strptime (dw_last_seen d))
            (map (\<lambda>(k, d). (k, with_hours d)) (track_all records (load_dwell file))))"
    by (simp add: update_dwell_tracking_file strptime_def timedelta_hours_def)
next
  fix e
  assume h: "qualifies rcd \<and> map_of (load_dwell file) (dwell_key rcd) = Some e"
  then obtain e1 where e1: "map_of (track_all rs (load_dwell file)) (dwell_key rcd) = Some e1"
    "dw_first_seen e1 = dw_first_seen e"
    using track_all_first_seen[of "load_dwell file" "dwell_key rcd" e rs] by blast
  from h have q: "qualifies rcd" by simp
  show "\<exists>e'. map_of (track_all (rs @ [rcd]) (load_dwell file)) (dwell_key rcd) = Some e' \<and>
             dw_first_seen e' = dw_first_seen e \<and> dw_last_seen e' = rec_timestamp rcd"
    using e1(2) by (simp add: track_all_append track_extend[OF q e1(1)])
next
  assume h: "qualifies rcd \<and> map_of (track_all rs (load_dwell file)) (dwell_key rcd) = None"
  then have q: "qualifies rcd" and n: "map_of (track_all rs (load_dwell file)) (dwell_key rcd) = None"
    by simp_all
  show "\<exists>e'. map_of (track_all (rs @ [rcd]) (load_dwell file)) (dwell_key rcd) = Some e' \<and>
             dw_first_seen e' = rec_timestamp rcd \<and> dw_last_seen e' = rec_timestamp rcd"
    using n by (simp add: track_all_append track_create[OF q n] map_add_def)
qed

text \<open>The stale record above, extended by the observation at 190800 s.\<close>

theorem eviction_after_tracking_witness:
  "\<exists>e'. map_of (track_all ([] @
      [\<lparr>rec_timestamp = 190800, rec_airport_icao = ''BGBW'', rec_airport_name = ''Narsarsuaq'',
        rec_airport_signal = ''RED'', rec_icao24 = ''a12345'', rec_callsign = ''N123AB'',
        rec_lat = 61, rec_lon = - 45, rec_altitude_m = Some 500, rec_velocity_ms = Some 10,
        rec_on_ground = Some True, rec_distance_km = 5, rec_likely_arrival = True,
        rec_priority = 1, rec_classification = ''private_us'',
        rec_classification_notes = ''US N-number - PRIORITY TARGET''\<rparr>])
      (load_dwell (Some [(''a12345_BGBW'',
         \<lparr>dw_icao24 = ''a12345'', dw_callsign = ''N123AB'', dw_airport = ''Narsarsuaq'',
          dw_airport_icao = ''BGBW'', dw_first_seen = 0, dw_last_seen = 18000,
          dw_classification = ''private_us'', dw_dwell_hours = Some 5\<rparr>)]))) ''a12345_BGBW'' = Some e' \<and>
      dw_first_seen e' = 0 \<and> dw_last_seen e' = 190800"
proof -
  let ?obs = "\<lparr>rec_timestamp = 190800, rec_airport_icao = ''BGBW'', rec_airport_name = ''Narsarsuaq'',
        rec_airport_signal = ''RED'', rec_icao24 = ''a12345'', rec_callsign = ''N123AB'',
        rec_lat = 61, rec_lon = - 45, rec_altitude_m = Some 500, rec_velocity_ms = Some 10,
        rec_on_ground = Some True, rec_distance_km = 5, rec_likely_arrival = True,
        rec_priority = 1, rec_classification = ''private_us'',
        rec_classification_notes = ''US N-number - PRIORITY TARGET''\<rparr>"
  let ?old = "\<lparr>dw_icao24 = ''a12345'', dw_callsign = ''N123AB'', dw_airport = ''Narsarsuaq'',
          dw_airport_icao = ''BGBW'', dw_first_seen = 0, dw_last_seen = 18000,
          dw_classification = ''private_us'', dw_dwell_hours = Some 5\<rparr>"
  have q: "qualifies ?obs" by (simp add: qualifies_def truthy_def)
  have k: "dwell_key ?obs = ''a12345_BGBW''" by (simp add: dwell_key_def)
  have m: "map_of (load_dwell (Some [(''a12345_BGBW'', ?old)])) (dwell_key ?obs) = Some ?old"
    by (simp add: load_dwell_def k)
  from eviction_after_tracking[of "[]" 0 "Some [(''a12345_BGBW'', ?old)]" ?obs "[]"] q m
  have "\<exists>e'. map_of (track_all ([] @ [?obs]) (load_dwell (Some [(''a12345_BGBW'', ?old)])))
          (dwell_key ?obs) = Some e' \<and>
        dw_first_seen e' = dw_first_seen ?old \<and> dw_last_seen e' = rec_timestamp ?obs"
    by blast
  then show ?thesis by (simp add: k)
qed

section \<open>Properties of the alert store\<close>

lemma last_n_length: "length (last_n n xs) = min n (length xs)"
  by (simp add: last_n_def)

lemma last_n_suffix: "take (length xs - n) xs @ last_n n xs = xs"
  by (simp add: last_n_def)

lemma save_alerts_Nil: "save_alerts [] file = file"
  by (simp add: save_alerts_def)

lemma main_alerts_file:
  "alerts_file (snd (main fetch now fs)) = save_alerts (new_alerts fetch now fs) (alerts_file fs)"
proof (cases "gather fetch now fs")
  case (Inl e)
  then show ?thesis by (simp add: main_def new_alerts_def save_alerts_Nil)
next
  case (Inr r)
  obtain all_alerts dw where "r = (all_alerts, dw)" by (cases r)
  with Inr show ?thesis by (simp add: main_def new_alerts_def)
qed

lemma stored_alerts_main:
  "stored_alerts (snd (main fetch now fs)) =
     (if new_alerts fetch now fs = [] then stored_alerts fs
      else last_n 100 (stored_alerts fs @ map alert_clean (new_alerts fetch now fs)))"
  by (simp add: stored_alerts_def main_alerts_file save_alerts_def Let_def)

lemma stored_alerts_main_le:
  "length (stored_alerts fs) \<le> 100 \<Longrightarrow> length (stored_alerts (snd (main fetch now fs))) \<le> 100"
  by (simp add: stored_alerts_main last_n_length)

lemma stored_alerts_run_le:
  "length (stored_alerts fs) \<le> 100 \<Longrightarrow> length (stored_alerts (run invs fs)) \<le> 100"
proof (induction invs arbitrary: fs)
  case Nil
  then show ?case by simp
next
  case (Cons inv invs)
  obtain fetch now where inv: "inv = (fetch, now)" by (cases inv)
  have "length (stored_alerts (snd (main fetch now fs))) \<le> 100"
    using Cons.prems by (rule stored_alerts_main_le)
  then show ?case unfolding inv by (simp add: Cons.IH)
qed

text \<open>
  Claim C5. Starting from an empty alert store, after any number of invocations the alert
  store holds at most 100 alerts. At every state so reached, the next invocation appends
  its alerts to the stored list and drops from the front: the stored list followed by the
  new alerts is some dropped prefix followed by the list written back, whose length is the
  smaller of 100 and the length of the whole.
\<close>

theorem alert_store_bounded:
  assumes "stored_alerts fs0 = []"
  shows "length (stored_alerts (run invs fs0)) \<le> 100 \<and>
         (\<exists>dropped.
            stored_alerts (run invs fs0) @ map alert_clean (new_alerts fetch now (run invs fs0)) =
              dropped @ stored_alerts (snd (main fetch now (run invs fs0))) \<and>
            length (stored_alerts (snd (main fetch now (run invs fs0)))) =
              min 100 (length (stored_alerts (run invs fs0)) +
                       length (new_alerts fetch now (run invs fs0))))"
proof -
  let ?fs = "run invs fs0"
  let ?new = "new_alerts fetch now ?fs"
  have le: "length (stored_alerts ?fs) \<le> 100"
    using assms by (intro stored_alerts_run_le) simp
  show ?thesis
  proof (cases "?new = []")
    case True
    then have "stored_alerts (snd (main fetch now ?fs)) = stored_alerts ?fs"
      by (simp add: stored_alerts_main)
    then show ?thesis using le True by simp
  next
    case False
    let ?all = "stored_alerts ?fs @ map alert_clean ?new"
    have st: "stored_alerts (snd (main fetch now ?fs)) = last_n 100 ?all"
      using False by (simp add: stored_alerts_main)
    have "?all = take (length ?all - 100) ?all @ last_n 100 ?all"
      by (simp only: last_n_suffix)
    then have "\<exists>dropped. ?all = dropped @ stored_alerts (snd (main fetch now ?fs))"
      unfolding st by blast
    moreover have "length (stored_alerts (snd (main fetch now ?fs))) =
        min 100 (length (stored_alerts ?fs) + length ?new)"
      unfolding st by (simp add: last_n_length)
    ultimately show ?thesis using le by blast
  qed
qed

text \<open>
  From no files at all, an invocation that sees one US aircraft on the ground at Narsarsuaq
  leaves one alert in the store.
\<close>

theorem alert_store_bounded_witness:
  "stored_alerts \<lparr>dwell_file = None, alerts_file = None\<rparr> = [] \<and>
   length (stored_alerts (snd (main
     (\<lambda>icao. if icao = ''BGBW''
        then Some [(1000000 * 25200,
          \<lparr>sv_icao24 = ''a12345'', sv_callsign = Some ''N123AB  '', sv_lon = - 45.40,
           sv_lat = 61.20, sv_altitude = Some 500, sv_on_ground = Some True,
           sv_velocity = Some 10\<rparr>)]
        else None)
     (1000000 * 25200 + 700000) \<lparr>dwell_file = None, alerts_file = None\<rparr>))) = 1"
proof -
  let ?fetch = "\<lambda>icao. if icao = ''BGBW''
        then Some [(1000000 * 25200 :: int,
          \<lparr>sv_icao24 = ''a12345'', sv_callsign = Some ''N123AB  '', sv_lon = - 45.40,
           sv_lat = 61.20, sv_altitude = Some 500, sv_on_ground = Some True,
           sv_velocity = Some 10\<rparr>)]
        else None"
  let ?fs = "\<lparr>dwell_file = None, alerts_file = None\<rparr>"
  have e: "stored_alerts ?fs = []" by (simp add: stored_alerts_def)
  have n: "length (new_alerts ?fetch (1000000 * 25200 + 700000) ?fs) = 1"
    by (simp add: new_alerts_def gather_def CHOKE_POINTS_def process_aircraft_def
      classify_aircraft_def generate_priority_alert_def update_dwell_tracking_def
      load_dwell_def track_def dwell_key_def truthy_def Let_def
      str_upper_def str_lower_def str_strip_def or_empty_def is_space_def upper_char_def
      lower_char_def startswith_def startswith_any_def SCHEDULED_CALLSIGN_PREFIXES_def
      strftime_def strptime_def timedelta_hours_def total_seconds_def dwell_hours_of_def
      with_hours_def no_keys_def)
  from alert_store_bounded[OF e, of "[]" ?fetch "1000000 * 25200 + 700000"] e n
  show ?thesis by simp
qed

text \<open>
  Claim C10. An invocation that generates no alert leaves the alert store exactly as it
  was: absent if it was absent, and with all its entries if it held more than 100.
\<close>

theorem no_alerts_no_write:
  assumes "new_alerts fetch now fs = []"
  shows "alerts_file (snd (main fetch now fs)) = alerts_file fs"
  using assms by (simp add: main_alerts_file save_alerts_Nil)

text \<open>An invocation in which every fetch fails, over a store of 101 alerts.\<close>

theorem no_alerts_no_write_witness:
  "new_alerts (\<lambda>icao. None) 0 \<lparr>dwell_file = None, alerts_file = Some (replicate 101 no_keys)\<rparr> = [] \<and>
   alerts_file (snd (main (\<lambda>icao. None) 0
      \<lparr>dwell_file = None, alerts_file = Some (replicate 101 no_keys)\<rparr>)) =
     Some (replicate 101 no_keys) \<and>
   100 < length (replicate 101 no_keys)"
proof -
  have n: "new_alerts (\<lambda>icao. None) 0
      \<lparr>dwell_file = None, alerts_file = Some (replicate 101 no_keys)\<rparr> = []"
    by (simp add: new_alerts_def gather_def CHOKE_POINTS_def update_dwell_tracking_def
        load_dwell_def Let_def)
  from no_alerts_no_write[OF n] n show ?thesis by simp
qed

end
